theory Spec2Isabelle
  imports Main "HOL-Library.Sublist" "HOL-Library.Multiset"
begin

section \<open>Python string primitives used by w2j\<close>

text \<open>
  A Python \<open>str\<close> is modelled as a \<open>string\<close> (a list of characters); one \<open>char\<close> stands
  for one character of the Python string. The functions below are the library calls the
  source makes on strings: \<open>s.split(c)\<close> for a one-character separator, \<open>sep.join(xs)\<close>,
  the slice \<open>s[lo:hi]\<close> with non-negative bounds, and \<open>s.replace(old, new)\<close>.
\<close>

fun split_on :: "char \<Rightarrow> string \<Rightarrow> string list" where
  "split_on c [] = [[]]"
| "split_on c (x # xs) =
     (if x = c then [] # split_on c xs
      else (case split_on c xs of [] \<Rightarrow> [[x]] | y # ys \<Rightarrow> (x # y) # ys))"

fun join :: "string \<Rightarrow> string list \<Rightarrow> string" where
  "join sep [] = []"
| "join sep [x] = x"
| "join sep (x # y # ys) = x @ sep @ join sep (y # ys)"

definition slice :: "nat \<Rightarrow> nat \<Rightarrow> string \<Rightarrow> string" where
  "slice lo hi s = drop lo (take hi s)"

section \<open>w2j.parser: identifier conversion\<close>

text \<open>
  \<open>towizid\<close> cuts the identifier at offsets 8, 12, 16 and 20 and joins the five pieces with
  hyphens (\<open>id[20:]\<close> is the rest of the string); \<open>tojoplinid\<close> is
  \<open>"".join(guid.split("-"))\<close>.
\<close>

definition towizid :: "string \<Rightarrow> string" where
  "towizid i =
     (let one = slice 0 8 i;
          two = slice 8 12 i;
          three = slice 12 16 i;
          four = slice 16 20 i;
          five = drop 20 i
      in join ''-'' [one, two, three, four, five])"

definition tojoplinid :: "string \<Rightarrow> string" where
  "tojoplinid guid = join [] (split_on CHR ''-'' guid)"

text \<open>
  The canonical form of a source identifier: 36 characters, hyphens at offsets 8, 13, 18
  and 23, a hexadecimal digit everywhere else.
\<close>

definition is_hex :: "char \<Rightarrow> bool" where
  "is_hex c = (c \<in> set ''0123456789abcdefABCDEF'')"

definition canonical_uuid :: "string \<Rightarrow> bool" where
  "canonical_uuid s =
     (length s = 36 \<and>
      list_all (\<lambda>i. if i \<in> {8, 13, 18, 23} then s ! i = CHR ''-'' else is_hex (s ! i)) [0..<36])"

section \<open>w2j.adapter: Location2Folder\<close>

text \<open>
  The class \<open>Location2Folder\<close>. The fields \<open>id\<close> and \<open>parent_id\<close> are \<open>None\<close> until the
  folder exists in Joplin; \<open>parent_location\<close> is \<open>None\<close> for a top-level folder.
\<close>

record Location2Folder =
  l2f_location :: string
  l2f_title :: string
  l2f_parent_location :: "string option"
  l2f_level :: int
  l2f_id :: "string option"
  l2f_parent_id :: "string option"

text \<open>
  \<open>Location2Folder.__init__\<close>. With \<open>title = None\<close> the title, level and parent location
  are computed from \<open>location[1:-1].split("/")\<close>; otherwise the given values are stored.
  \<open>location[1:-1]\<close> is the slice from offset 1 to offset \<open>len - 1\<close>; \<open>titles[-1]\<close> is
  the last element (the result of \<open>split\<close> is never empty) and \<open>titles[:-1]\<close> is all but
  the last.
\<close>

definition Location2Folder_init ::
  "string \<Rightarrow> string option \<Rightarrow> string option \<Rightarrow> int \<Rightarrow> string option \<Rightarrow> string option
     \<Rightarrow> Location2Folder" where
  "Location2Folder_init location title parent_location level ident parent_id =
     (case title of
        None \<Rightarrow>
          (let titles = split_on CHR ''/'' (slice 1 (length location - 1) location);
               lvl = int (length titles)
           in \<lparr> l2f_location = location,
                l2f_title = last titles,
                l2f_parent_location =
                  (if lvl > 1 then Some (''/'' @ join ''/'' (butlast titles) @ ''/'') else None),
                l2f_level = lvl,
                l2f_id = ident,
                l2f_parent_id = parent_id \<rparr>)
      | Some t \<Rightarrow>
          \<lparr> l2f_location = location,
            l2f_title = t,
            l2f_parent_location = parent_location,
            l2f_level = level,
            l2f_id = ident,
            l2f_parent_id = parent_id \<rparr>)"

text \<open>\<open>Location2Folder(location)\<close>: every optional argument at its default.\<close>

definition Location2Folder_of :: "string \<Rightarrow> Location2Folder" where
  "Location2Folder_of location = Location2Folder_init location None None 0 None None"

section \<open>w2j.parser: link rewriting\<close>

text \<open>
  \<open>s.replace(old, new)\<close>: scanning from the left, every non-overlapping occurrence of
  \<open>old\<close> is replaced by \<open>new\<close>; with an empty \<open>old\<close>, \<open>new\<close> is inserted before every
  character and at the end.
\<close>

function str_replace :: "string \<Rightarrow> string \<Rightarrow> string \<Rightarrow> string" where
  "str_replace old new s =
     (if old = [] then new @ concat (map (\<lambda>c. c # new) s)
      else if s = [] then []
      else if prefix old s then new @ str_replace old new (drop (length old) s)
      else hd s # str_replace old new (tl s))"
  by pat_completeness auto
termination
  by (relation "measure (\<lambda>(old, new, s). length s)") auto

declare str_replace.simps [simp del]

text \<open>
  The class \<open>JoplinInternalLink\<close>. \<open>outertext\<close> is the literal text of the reference in
  the source body; it defaults to the empty string, and is \<open>None\<close> when the caller passes
  \<open>None\<close> (an image whose \<open>outerhtml\<close> is \<open>None\<close>). The property \<open>id\<close> is
  \<open>f"{note_id}-{resource_id}"\<close>.
\<close>

record JoplinInternalLink =
  jil_note_id :: string
  jil_resource_id :: string
  jil_title :: string
  jil_link_type :: string
  jil_outertext :: "string option"

definition JoplinInternalLink_init ::
  "string \<Rightarrow> string \<Rightarrow> string \<Rightarrow> string \<Rightarrow> string option \<Rightarrow> JoplinInternalLink" where
  "JoplinInternalLink_init note_id resource_id title link_type outertext =
     \<lparr> jil_note_id = note_id, jil_resource_id = resource_id, jil_title = title,
       jil_link_type = link_type, jil_outertext = outertext \<rparr>"

definition JoplinInternalLink_id :: "JoplinInternalLink \<Rightarrow> string" where
  "JoplinInternalLink_id jil = jil_note_id jil @ ''-'' @ jil_resource_id jil"

text \<open>Python truthiness of an optional string: \<open>None\<close> and \<open>""\<close> are false.\<close>

definition truthy_str :: "string option \<Rightarrow> bool" where
  "truthy_str s = (case s of None \<Rightarrow> False | Some t \<Rightarrow> t \<noteq> [])"

definition gen_ilstr :: "bool \<Rightarrow> JoplinInternalLink \<Rightarrow> string" where
  "gen_ilstr is_markdown jil =
     (if is_markdown then
        (let body = ''['' @ jil_title jil @ ''](:/'' @ jil_resource_id jil @ '')''
         in if jil_link_type jil = ''image'' then ''!'' @ body else body)
      else if jil_link_type jil = ''image'' then
        ''<img src=\":/'' @ jil_resource_id jil @ ''\" alt=\"'' @ jil_title jil @ ''\">''
      else ''<a href=\":/'' @ jil_resource_id jil @ ''\">'' @ jil_title jil @ ''</a>'')"

text \<open>
  The heading of the trailing block is four CJK characters in the source (code points
  U+9644, U+4EF6, U+94FE, U+63A5); they are written here as the twelve bytes of their
  UTF-8 encoding.
\<close>

definition end_heading :: string where
  "end_heading = [CHR 0xE9, CHR 0x99, CHR 0x84, CHR 0xE4, CHR 0xBB, CHR 0xB6,
                  CHR 0xE9, CHR 0x93, CHR 0xBE, CHR 0xE6, CHR 0x8E, CHR 0xA5]"

definition gen_end_ilstr :: "bool \<Rightarrow> JoplinInternalLink list \<Rightarrow> string" where
  "gen_end_ilstr is_markdown jils =
     (if is_markdown then
        ''\<newline>\<newline># '' @ end_heading @ ''\<newline>\<newline>'' @
        join ''\<newline>'' (map (\<lambda>jil. ''- '' @ gen_ilstr is_markdown jil) jils)
      else
        (let body = join [] (map (\<lambda>jil. ''<li>'' @ gen_ilstr is_markdown jil @ ''</li>'') jils)
         in ''<br><br><h1>'' @ end_heading @ ''</h1><ul>'' @ body @ ''</ul>''))"

text \<open>
  The loop of \<open>convert_joplin_body\<close>, carrying the body and the list \<open>insert_to_end\<close>.
\<close>

fun convert_loop ::
  "bool \<Rightarrow> JoplinInternalLink list \<Rightarrow> string \<Rightarrow> JoplinInternalLink list
     \<Rightarrow> string \<times> JoplinInternalLink list" where
  "convert_loop is_markdown [] body insert_to_end = (body, insert_to_end)"
| "convert_loop is_markdown (jil # rest) body insert_to_end =
     (let body1 = (if truthy_str (jil_outertext jil)
                   then str_replace (the (jil_outertext jil)) (gen_ilstr is_markdown jil) body
                   else body);
          ins1 = (if jil_link_type jil = ''open_attachment''
                  then insert_to_end @ [jil] else insert_to_end)
      in convert_loop is_markdown rest body1 ins1)"

text \<open>
  \<open>convert_joplin_body\<close>. The first argument is \<open>inscriptis.get_text\<close>, an external
  library function applied to the body of a markdown note after the substitutions.
\<close>

definition convert_joplin_body ::
  "(string \<Rightarrow> string) \<Rightarrow> string \<Rightarrow> bool \<Rightarrow> JoplinInternalLink list \<Rightarrow> string" where
  "convert_joplin_body get_text body is_markdown internal_links =
     (case convert_loop is_markdown internal_links body [] of
        (body1, insert_to_end) \<Rightarrow>
          (let body2 = (if is_markdown then get_text body1 else body1)
           in if insert_to_end \<noteq> [] then body2 @ gen_end_ilstr is_markdown insert_to_end
              else body2))"

section \<open>Errors, dictionaries and the Joplin and Wiz objects\<close>

text \<open>
  The exceptions the modelled code raises or lets through. The two \<open>ValueError\<close>s of
  \<open>sync_folders\<close> carry the parent location of their message; \<open>ExternalError\<close> is any
  exception raised by an external collaborator (the Joplin service, the file system).
\<close>

datatype error =
    ValueError_parent_not_found string
  | ValueError_parent_no_id string
  | KeyError
  | AttributeError
  | IntegrityError
  | ExternalError string

text \<open>
  A Python \<open>dict\<close> is an association list in insertion order: \<open>d[k] = v\<close> replaces the
  value in place when the key is present and appends the pair otherwise; \<open>d.get(k)\<close> is
  \<open>map_of d k\<close>; \<open>d.values()\<close> is \<open>map snd d\<close>.
\<close>

fun dict_set :: "'k \<Rightarrow> 'v \<Rightarrow> ('k \<times> 'v) list \<Rightarrow> ('k \<times> 'v) list" where
  "dict_set k v [] = [(k, v)]"
| "dict_set k v (p # ps) = (if fst p = k then (k, v) # ps else p # dict_set k v ps)"

text \<open>
  The classes of \<open>w2j.joplin\<close>, with the fields the adapter reads and the constructor
  arguments it passes. A folder built by \<open>load_folders\<close> has the identifier of its chain
  entry, which may be \<open>None\<close>.
\<close>

record JoplinFolder =
  jf_id :: "string option"
  jf_title :: string
  jf_created_time :: int
  jf_updated_time :: int
  jf_parent_id :: "string option"

record JoplinTag =
  jt_id :: string
  jt_title :: string
  jt_created_time :: int
  jt_updated_time :: int

record JoplinResource =
  jr_id :: string
  jr_title :: string
  jr_filename :: string
  jr_created_time :: int
  jr_resource_type :: int

record JoplinNote =
  jn_id :: string
  jn_title :: string
  jn_parent_id :: string
  jn_markup_language :: int
  jn_location :: "string option"
  jn_created_time :: int
  jn_updated_time :: int
  jn_folder :: "JoplinFolder option"
  jn_internal_links :: "(string \<times> JoplinInternalLink) list"
  jn_resources :: "(string \<times> JoplinResource) list"
  jn_tags :: "(string \<times> JoplinTag) list"

text \<open>
  The classes of \<open>w2j.wiz_mac\<close> and \<open>w2j.parser\<close> that \<open>_sync_note\<close> reads, with the
  fields it reads. An image's \<open>file\<close> and \<open>outerhtml\<close> may be \<open>None\<close>.
\<close>

record WizInternalLink =
  wil_outerhtml :: string
  wil_guid :: string
  wil_title :: string
  wil_link_type :: string

record WizImage =
  wi_outerhtml :: "string option"
  wi_src :: string
  wi_file :: "string option"
  wi_missing :: bool

record WizAttachment =
  wa_guid :: string
  wa_doc_guid :: string
  wa_name :: string
  wa_file_name :: string
  wa_modified :: int
  wa_file :: string

record WizDocument =
  wd_guid :: string
  wd_title :: string
  wd_location :: string
  wd_url :: "string option"
  wd_created :: int
  wd_modified :: int
  wd_body :: string
  wd_is_markdown :: bool
  wd_attachments :: "WizAttachment list"
  wd_images :: "WizImage list"
  wd_internal_links :: "WizInternalLink list"

section \<open>w2j.adapter: ConvertUtil, the sync cache\<close>

text \<open>
  The rows of the tables \<open>note\<close>, \<open>resource\<close>, \<open>internal_link\<close> and \<open>note_tag\<close>, in the
  column order of the \<open>INSERT\<close> statements; a row of \<open>l2f\<close> is a \<open>Location2Folder\<close>.
\<close>

type_synonym note_row = "string \<times> string \<times> string \<times> int \<times> string \<times> int \<times> int"
type_synonym resource_row = "string \<times> string \<times> string \<times> int \<times> int"
type_synonym internal_link_row = "string \<times> string \<times> string \<times> string"
type_synonym note_tag_row = "string \<times> string \<times> string \<times> int"

text \<open>
  The state of a \<open>ConvertUtil\<close>: its dictionaries in memory and the tables behind its
  database connection. Every statement is committed right after it is executed, so the
  tables hold what has been executed.
\<close>

record ConvertUtil =
  l2f_cache :: "(string \<times> Location2Folder) list"
  folders :: "(string option \<times> JoplinFolder) list"
  tags :: "(string \<times> JoplinTag) list"
  "notes" :: "(string \<times> JoplinNote) list"
  resources :: "(string \<times> JoplinResource) list"
  internal_links :: "(string \<times> JoplinInternalLink) list"
  tbl_l2f :: "Location2Folder list"
  tbl_note :: "note_row list"
  tbl_resource :: "resource_row list"
  tbl_internal_link :: "internal_link_row list"
  tbl_note_tag :: "note_tag_row list"

definition get_note :: "string \<Rightarrow> ConvertUtil \<Rightarrow> JoplinNote option" where
  "get_note note_id c = map_of (notes c) note_id"

text \<open>
  \<open>get_folder(id, location)\<close>: by identifier when \<open>id\<close> is given and not empty, else by
  location through the chain entry when \<open>location\<close> is given and not empty.
\<close>

definition get_folder ::
  "string option \<Rightarrow> string option \<Rightarrow> ConvertUtil \<Rightarrow> JoplinFolder option" where
  "get_folder ident location c =
     (if truthy_str ident then map_of (folders c) ident
      else if truthy_str location then
        (case map_of (l2f_cache c) (the location) of
           None \<Rightarrow> None
         | Some l2f \<Rightarrow> map_of (folders c) (l2f_id l2f))
      else None)"

text \<open>
  \<open>get_tags\<close> selects the columns \<open>tag_id, title\<close> of the note's rows in \<open>note_tag\<close> and
  looks up \<open>item[1]\<close>, the second of them, in \<open>self.tags\<close> with a subscript, which raises
  \<open>KeyError\<close> on a missing key.
\<close>

fun get_tags_loop ::
  "(string \<times> string) list \<Rightarrow> (string \<times> JoplinTag) list \<Rightarrow> (string \<times> JoplinTag) list
     \<Rightarrow> error + (string \<times> JoplinTag) list" where
  "get_tags_loop [] all_tags tag_dict = Inr tag_dict"
| "get_tags_loop (item # items) all_tags tag_dict =
     (let tag_id = snd item
      in case map_of all_tags tag_id of
           None \<Rightarrow> Inl KeyError
         | Some t \<Rightarrow> get_tags_loop items all_tags (dict_set tag_id t tag_dict))"

definition get_tags :: "string \<Rightarrow> ConvertUtil \<Rightarrow> error + (string \<times> JoplinTag) list" where
  "get_tags guid c =
     (let items = map (\<lambda>(note_id, tag_id, title, created). (tag_id, title))
                    (filter (\<lambda>(note_id, tag_id, title, created). note_id = guid) (tbl_note_tag c))
      in get_tags_loop items (tags c) [])"

definition load_folders :: "ConvertUtil \<Rightarrow> ConvertUtil" where
  "load_folders c =
     c\<lparr> folders :=
          foldl (\<lambda>d l2f. dict_set (l2f_id l2f)
                   \<lparr> jf_id = l2f_id l2f, jf_title = l2f_title l2f, jf_created_time = 0,
                     jf_updated_time = 0, jf_parent_id = l2f_parent_id l2f \<rparr> d)
                [] (map snd (l2f_cache c)) \<rparr>"

text \<open>
  \<open>add_resource\<close>. The \<open>INSERT\<close> raises \<open>IntegrityError\<close> when the table already has a
  row with the primary key; the exception leaves the state as it was.
\<close>

definition add_resource :: "JoplinResource \<Rightarrow> ConvertUtil \<Rightarrow> (error + unit) \<times> ConvertUtil" where
  "add_resource jr c =
     (if map_of (resources c) (jr_id jr) \<noteq> None then (Inr (), c)
      else if \<exists>row \<in> set (tbl_resource c). fst row = jr_id jr then (Inl IntegrityError, c)
      else (Inr (),
            c\<lparr> tbl_resource := tbl_resource c @
                  [(jr_id jr, jr_title jr, jr_filename jr, jr_created_time jr, jr_resource_type jr)],
               resources := dict_set (jr_id jr) jr (resources c) \<rparr>))"

definition add_internal_lnk ::
  "JoplinInternalLink \<Rightarrow> ConvertUtil \<Rightarrow> (error + unit) \<times> ConvertUtil" where
  "add_internal_lnk jil c =
     (if map_of (internal_links c) (JoplinInternalLink_id jil) \<noteq> None then (Inr (), c)
      else if \<exists>(note_id, resource_id, title, link_type) \<in> set (tbl_internal_link c).
                note_id = jil_note_id jil \<and> resource_id = jil_resource_id jil
           then (Inl IntegrityError, c)
      else (Inr (),
            c\<lparr> tbl_internal_link := tbl_internal_link c @
                  [(jil_note_id jil, jil_resource_id jil, jil_title jil, jil_link_type jil)],
               internal_links := dict_set (JoplinInternalLink_id jil) jil (internal_links c) \<rparr>))"

text \<open>
  \<open>add_note_tag\<close>. The test query is \<open>SELECT count(*) ...\<close>; \<open>fetchone()\<close> on it returns the
  one row of the result, a tuple holding the count, and the source tests the truth value of
  that tuple. A tuple is true when it is not empty.
\<close>

definition fetchone_count :: "nat \<Rightarrow> int list option" where
  "fetchone_count n = Some [int n]"

definition truthy_row :: "int list option \<Rightarrow> bool" where
  "truthy_row r = (case r of None \<Rightarrow> False | Some t \<Rightarrow> t \<noteq> [])"

definition add_note_tag ::
  "JoplinNote \<Rightarrow> JoplinTag \<Rightarrow> ConvertUtil \<Rightarrow> (error + unit) \<times> ConvertUtil" where
  "add_note_tag note tag c =
     (let note_tag_item =
            fetchone_count (length (filter (\<lambda>(note_id, tag_id, title, created).
                                      note_id = jn_id note \<and> tag_id = jt_id tag) (tbl_note_tag c)))
      in if truthy_row note_tag_item then (Inr (), c)
         else if \<exists>(note_id, tag_id, title, created) \<in> set (tbl_note_tag c).
                   note_id = jn_id note \<and> tag_id = jt_id tag
              then (Inl IntegrityError, c)
         else (Inr (),
               c\<lparr> tbl_note_tag := tbl_note_tag c @
                     [(jn_id note, jt_id tag, jt_title tag, jt_created_time tag)] \<rparr>))"

fun add_note_tags ::
  "JoplinNote \<Rightarrow> JoplinTag list \<Rightarrow> ConvertUtil \<Rightarrow> (error + unit) \<times> ConvertUtil" where
  "add_note_tags note [] c = (Inr (), c)"
| "add_note_tags note (tag # rest) c =
     (case add_note_tag note tag c of
        (Inl e, c1) \<Rightarrow> (Inl e, c1)
      | (Inr u, c1) \<Rightarrow> add_note_tags note rest c1)"

fun add_internal_lnks ::
  "JoplinInternalLink list \<Rightarrow> ConvertUtil \<Rightarrow> (error + unit) \<times> ConvertUtil" where
  "add_internal_lnks [] c = (Inr (), c)"
| "add_internal_lnks (jil # rest) c =
     (case add_internal_lnk jil c of
        (Inl e, c1) \<Rightarrow> (Inl e, c1)
      | (Inr u, c1) \<Rightarrow> add_internal_lnks rest c1)"

text \<open>
  \<open>add_note\<close>. The column \<open>wiz_location\<close> is \<open>NOT NULL\<close>, so a note without a location
  makes the \<open>INSERT\<close> raise, as a row with the same \<open>note_id\<close> does. After the insert the
  note is stored in \<open>self.notes\<close>, then its tags and its internal links are added.
\<close>

definition add_note :: "JoplinNote \<Rightarrow> ConvertUtil \<Rightarrow> (error + unit) \<times> ConvertUtil" where
  "add_note note c =
     (if map_of (notes c) (jn_id note) \<noteq> None then (Inr (), c)
      else if (\<exists>row \<in> set (tbl_note c). fst row = jn_id note) \<or> jn_location note = None
           then (Inl IntegrityError, c)
      else
        (let c1 = c\<lparr> tbl_note := tbl_note c @
                       [(jn_id note, jn_title note, jn_parent_id note, jn_markup_language note,
                         the (jn_location note), jn_created_time note, jn_updated_time note)],
                     notes := dict_set (jn_id note) note (notes c) \<rparr>
         in case add_note_tags note (map snd (jn_tags note)) c1 of
              (Inl e, c2) \<Rightarrow> (Inl e, c2)
            | (Inr u, c2) \<Rightarrow> add_internal_lnks (map snd (jn_internal_links note)) c2))"

text \<open>
  \<open>update_l2f\<close>. \<open>self.l2f_cache[location]\<close> raises \<open>KeyError\<close> on a missing key. The
  entry's \<open>id\<close> is assigned, its \<open>parent_id\<close> only when the argument is not \<open>None\<close>, and
  the \<open>UPDATE\<close> writes both into the row with the entry's location.
\<close>

definition update_l2f ::
  "string \<Rightarrow> string option \<Rightarrow> string option \<Rightarrow> ConvertUtil \<Rightarrow> (error + unit) \<times> ConvertUtil" where
  "update_l2f location ident parent_id c =
     (case map_of (l2f_cache c) location of
        None \<Rightarrow> (Inl KeyError, c)
      | Some l2f_inst \<Rightarrow>
          (let inst1 = l2f_inst\<lparr> l2f_id := ident \<rparr>;
               inst2 = (if parent_id \<noteq> None then inst1\<lparr> l2f_parent_id := parent_id \<rparr> else inst1)
           in (Inr (),
               c\<lparr> l2f_cache := dict_set location inst2 (l2f_cache c),
                  tbl_l2f := map (\<lambda>row. if l2f_location row = l2f_location inst2
                                          then row\<lparr> l2f_parent_id := l2f_parent_id inst2,
                                                    l2f_id := l2f_id inst2 \<rparr>
                                          else row) (tbl_l2f c) \<rparr>)))"

text \<open>
  \<open>get_waiting_for_created_l2f\<close>: the entries without an identifier, in the order of the
  dictionary, sorted by level with Python's stable sort.
\<close>

definition get_waiting_for_created_l2f :: "ConvertUtil \<Rightarrow> Location2Folder list" where
  "get_waiting_for_created_l2f c =
     sort_key l2f_level (filter (\<lambda>v. l2f_id v = None) (map snd (l2f_cache c)))"

section \<open>w2j.adapter: Adapter, the sync orchestrator\<close>

text \<open>
  The calls the adapter makes on the Joplin service. \<open>create_resource\<close> is called in two
  ways: with the keywords \<open>attributes\<close> (a title and a file name) and \<open>data\<close> for an
  attachment, and with three positional arguments (the open file, its base name, a content
  type) for an image; the file is given by its content.
\<close>

datatype create_resource_args =
    Attributes_data string string string
  | Positional string string string

datatype jda_call =
    Post_folder string "string option"
  | Get_resources
  | Create_resource create_resource_args
  | Post_note string string string bool "string option" "string option" int int

text \<open>
  The external collaborators. The Joplin service answers a call as a function of the calls
  made before it, with \<open>Inl\<close> for an exception. \<open>path_exists\<close> is \<open>os.path.exists\<close>,
  \<open>open_rb\<close> opens a file and gives its content, \<open>get_text\<close> is \<open>inscriptis.get_text\<close>.
  \<open>file_path\<close> is the attribute \<open>file_path\<close> of an attachment, which
  \<open>_upload_wiz_attachment\<close> reads: the class \<open>WizAttachment\<close> of \<open>w2j.wiz_mac\<close> declares
  no such attribute, so that reading it raises \<open>AttributeError\<close> there; on Windows the
  adapter takes the class from \<open>w2j.wiz_win\<close> instead.
\<close>

record collab =
  post_folder :: "jda_call list \<Rightarrow> string \<Rightarrow> string option \<Rightarrow> error + JoplinFolder"
  get_resources :: "jda_call list \<Rightarrow> error + JoplinResource list"
  create_resource :: "jda_call list \<Rightarrow> create_resource_args \<Rightarrow> error + JoplinResource option"
  post_note :: "jda_call list \<Rightarrow> string \<Rightarrow> string \<Rightarrow> string \<Rightarrow> bool \<Rightarrow> string option
                  \<Rightarrow> string option \<Rightarrow> int \<Rightarrow> int \<Rightarrow> error + JoplinNote"
  path_exists :: "string \<Rightarrow> bool"
  open_rb :: "string \<Rightarrow> error + string"
  file_path :: "WizAttachment \<Rightarrow> error + string"
  get_text :: "string \<Rightarrow> string"

text \<open>
  The state of an \<open>Adapter\<close>: its \<open>ConvertUtil\<close> and the calls submitted to the Joplin
  service so far, oldest first. A call is recorded when it is submitted, whether it
  returns or raises.
\<close>

record Adapter =
  cu :: ConvertUtil
  jda_calls :: "jda_call list"

definition submit :: "jda_call \<Rightarrow> Adapter \<Rightarrow> Adapter" where
  "submit call st = st\<lparr> jda_calls := jda_calls st @ [call] \<rparr>"

text \<open>
  One round of the loop of \<open>sync_folders\<close>. The entry \<open>l2f\<close> is an object of the cache;
  the loop reads its location, title and parent location, which nothing assigns after
  construction, and looks the parent up in the cache as it is at that moment.
\<close>

definition sync_folder_step ::
  "collab \<Rightarrow> Location2Folder \<Rightarrow> Adapter \<Rightarrow> (error + unit) \<times> Adapter" where
  "sync_folder_step E l2f st =
     (case l2f_parent_location l2f of
        None \<Rightarrow>
          (let st1 = submit (Post_folder (l2f_title l2f) None) st
           in case post_folder E (jda_calls st) (l2f_title l2f) None of
                Inl e \<Rightarrow> (Inl e, st1)
              | Inr jf \<Rightarrow>
                  (case update_l2f (l2f_location l2f) (jf_id jf) None (cu st1) of
                     (r, c) \<Rightarrow> (r, st1\<lparr> cu := c \<rparr>)))
      | Some parent_location \<Rightarrow>
          (case map_of (l2f_cache (cu st)) parent_location of
             None \<Rightarrow> (Inl (ValueError_parent_not_found parent_location), st)
           | Some parent_l2f \<Rightarrow>
               (case l2f_id parent_l2f of
                  None \<Rightarrow> (Inl (ValueError_parent_no_id parent_location), st)
                | Some pid \<Rightarrow>
                    (let st1 = submit (Post_folder (l2f_title l2f) (Some pid)) st
                     in case post_folder E (jda_calls st) (l2f_title l2f) (Some pid) of
                          Inl e \<Rightarrow> (Inl e, st1)
                        | Inr jf \<Rightarrow>
                            (case update_l2f (l2f_location l2f) (jf_id jf) (jf_parent_id jf)
                                    (cu st1) of
                               (r, c) \<Rightarrow> (r, st1\<lparr> cu := c \<rparr>))))))"

fun sync_folders_loop ::
  "collab \<Rightarrow> Location2Folder list \<Rightarrow> Adapter \<Rightarrow> (error + unit) \<times> Adapter" where
  "sync_folders_loop E [] st = (Inr (), st)"
| "sync_folders_loop E (l2f # rest) st =
     (case sync_folder_step E l2f st of
        (Inl e, st1) \<Rightarrow> (Inl e, st1)
      | (Inr u, st1) \<Rightarrow> sync_folders_loop E rest st1)"

definition sync_folders :: "collab \<Rightarrow> Adapter \<Rightarrow> (error + unit) \<times> Adapter" where
  "sync_folders E st =
     (let waiting_created_l2f = get_waiting_for_created_l2f (cu st)
      in case sync_folders_loop E waiting_created_l2f st of
           (Inl e, st1) \<Rightarrow> (Inl e, st1)
         | (Inr u, st1) \<Rightarrow> (Inr (), st1\<lparr> cu := load_folders (cu st1) \<rparr>))"

text \<open>\<open>os.path.basename\<close>: what follows the last slash.\<close>

definition basename :: "string \<Rightarrow> string" where
  "basename p = last (split_on CHR ''/'' p)"

text \<open>\<open>_get_resource_by_filename\<close>: the first resource of the service with the title.\<close>

definition get_resource_by_filename ::
  "collab \<Rightarrow> string \<Rightarrow> Adapter \<Rightarrow> (error + JoplinResource option) \<times> Adapter" where
  "get_resource_by_filename E filename st =
     (let st1 = submit Get_resources st
      in case get_resources E (jda_calls st) of
           Inl e \<Rightarrow> (Inl e, st1)
         | Inr rs \<Rightarrow> (Inr (find (\<lambda>resource. jr_title resource = filename) rs), st1))"

text \<open>
  \<open>_upload_wiz_attachment\<close>. The whole body is inside \<open>try ... except Exception\<close>, which
  returns \<open>None\<close>.
\<close>

definition upload_wiz_attachment ::
  "collab \<Rightarrow> WizAttachment \<Rightarrow> Adapter \<Rightarrow> JoplinResource option \<times> Adapter" where
  "upload_wiz_attachment E wiz_attachment st =
     (case file_path E wiz_attachment of
        Inl e \<Rightarrow> (None, st)
      | Inr path \<Rightarrow>
          if \<not> path_exists E path then (None, st)
          else
            (case get_resource_by_filename E (wa_file_name wiz_attachment) st of
               (Inl e, st1) \<Rightarrow> (None, st1)
             | (Inr (Some existing_resource), st1) \<Rightarrow> (Some existing_resource, st1)
             | (Inr None, st1) \<Rightarrow>
                 (case open_rb E path of
                    Inl e \<Rightarrow> (None, st1)
                  | Inr content \<Rightarrow>
                      (let args = Attributes_data (wa_file_name wiz_attachment)
                                    (wa_file_name wiz_attachment) content;
                           st2 = submit (Create_resource args) st1
                       in case create_resource E (jda_calls st1) args of
                            Inl e \<Rightarrow> (None, st2)
                          | Inr jr \<Rightarrow> (jr, st2)))))"

text \<open>
  \<open>_upload_wiz_image\<close>. The lookup by file name is outside the \<open>try\<close>, so its exception
  leaves the function; the upload and \<open>add_resource\<close> are inside it.
\<close>

definition upload_wiz_image ::
  "collab \<Rightarrow> WizImage \<Rightarrow> Adapter \<Rightarrow> (error + JoplinResource option) \<times> Adapter" where
  "upload_wiz_image E img st =
     (case wi_file img of
        None \<Rightarrow> (Inr None, st)
      | Some file \<Rightarrow>
          if \<not> path_exists E file then (Inr None, st)
          else
            (case get_resource_by_filename E (basename file) st of
               (Inl e, st1) \<Rightarrow> (Inl e, st1)
             | (Inr (Some resource), st1) \<Rightarrow> (Inr (Some resource), st1)
             | (Inr None, st1) \<Rightarrow>
                 (case open_rb E file of
                    Inl e \<Rightarrow> (Inr None, st1)
                  | Inr content \<Rightarrow>
                      (let args = Positional content (basename file) ''image/jpeg'';
                           st2 = submit (Create_resource args) st1
                       in case create_resource E (jda_calls st1) args of
                            Inl e \<Rightarrow> (Inr None, st2)
                          | Inr None \<Rightarrow> (Inr None, st2)
                          | Inr (Some resource) \<Rightarrow>
                              (case add_resource resource (cu st2) of
                                 (Inl e, c) \<Rightarrow> (Inr None, st2\<lparr> cu := c \<rparr>)
                               | (Inr u, c) \<Rightarrow> (Inr (Some resource), st2\<lparr> cu := c \<rparr>))))))"

text \<open>
  The three loops of \<open>_sync_note\<close> that fill the dictionary \<open>joplin_internal_links\<close>: over
  the document's internal links, over its attachments and over its images. The dictionary
  \<open>resources_in_note\<close> of the source is written and never read; it is left out.
\<close>

fun links_of_document ::
  "string \<Rightarrow> WizInternalLink list \<Rightarrow> (string \<times> JoplinInternalLink) list
     \<Rightarrow> (string \<times> JoplinInternalLink) list" where
  "links_of_document note_id [] jils = jils"
| "links_of_document note_id (wil # rest) jils =
     (let resource_id = tojoplinid (wil_guid wil);
          jil = JoplinInternalLink_init note_id resource_id (wil_title wil) (wil_link_type wil)
                  (Some (wil_outerhtml wil))
      in links_of_document note_id rest (dict_set (JoplinInternalLink_id jil) jil jils))"

fun upload_attachments ::
  "collab \<Rightarrow> string \<Rightarrow> WizAttachment list \<Rightarrow> (string \<times> JoplinInternalLink) list \<Rightarrow> Adapter
     \<Rightarrow> (string \<times> JoplinInternalLink) list \<times> Adapter" where
  "upload_attachments E note_id [] jils st = (jils, st)"
| "upload_attachments E note_id (attachment # rest) jils st =
     (case upload_wiz_attachment E attachment st of
        (None, st1) \<Rightarrow> upload_attachments E note_id rest jils st1
      | (Some jr, st1) \<Rightarrow>
          (let jil_id = note_id @ ''-'' @ jr_id jr
           in case map_of jils jil_id of
                Some jil \<Rightarrow> upload_attachments E note_id rest jils st1
              | None \<Rightarrow>
                  (let jil = JoplinInternalLink_init note_id (jr_id jr) (jr_title jr)
                               ''open_attachment'' (Some [])
                   in upload_attachments E note_id rest
                        (dict_set (JoplinInternalLink_id jil) jil jils) st1)))"

fun upload_images ::
  "collab \<Rightarrow> string \<Rightarrow> WizImage list \<Rightarrow> (string \<times> JoplinInternalLink) list \<Rightarrow> Adapter
     \<Rightarrow> (string \<times> JoplinInternalLink) list \<times> Adapter" where
  "upload_images E note_id [] jils st = (jils, st)"
| "upload_images E note_id (img # rest) jils st =
     (case upload_wiz_image E img st of
        (Inl e, st1) \<Rightarrow> upload_images E note_id rest jils st1
      | (Inr None, st1) \<Rightarrow> upload_images E note_id rest jils st1
      | (Inr (Some jr), st1) \<Rightarrow>
          (let jil = JoplinInternalLink_init note_id (jr_id jr) (jr_title jr) ''image''
                       (wi_outerhtml img)
           in upload_images E note_id rest (dict_set (JoplinInternalLink_id jil) jil jils) st1))"

text \<open>
  The last part of \<open>_sync_note\<close>, from the call of \<open>convert_joplin_body\<close> on: the body is
  rewritten, the folder of the document's location is looked up (\<open>folder.id\<close> raises
  \<open>AttributeError\<close> when there is none), the note is created in Joplin, and the note with
  its links, folder and tags is stored in the cache.
\<close>

definition create_and_store ::
  "collab \<Rightarrow> WizDocument \<Rightarrow> string \<Rightarrow> (string \<times> JoplinInternalLink) list \<Rightarrow> Adapter
     \<Rightarrow> (error + JoplinNote option) \<times> Adapter" where
  "create_and_store E document note_id joplin_internal_links st2 =
     (let body = convert_joplin_body (get_text E) (wd_body document)
                   (wd_is_markdown document) (map snd joplin_internal_links)
      in case get_folder None (Some (wd_location document)) (cu st2) of
           None \<Rightarrow> (Inl AttributeError, st2)
         | Some folder \<Rightarrow>
             (let st3 = submit (Post_note note_id (wd_title document) body
                          (wd_is_markdown document) (jf_id folder) (wd_url document)
                          (wd_created document) (wd_modified document)) st2
              in case post_note E (jda_calls st2) note_id (wd_title document) body
                        (wd_is_markdown document) (jf_id folder) (wd_url document)
                        (wd_created document) (wd_modified document) of
                   Inl e \<Rightarrow> (Inl e, st3)
                 | Inr note0 \<Rightarrow>
                     (case get_tags (jn_id note0) (cu st3) of
                        Inl e \<Rightarrow> (Inl e, st3)
                      | Inr note_tags \<Rightarrow>
                          (let note = note0\<lparr> jn_internal_links := joplin_internal_links,
                                             jn_folder := Some folder,
                                             jn_tags := note_tags \<rparr>
                           in case add_note note (cu st3) of
                                (Inl e, c) \<Rightarrow> (Inl e, st3\<lparr> cu := c \<rparr>)
                              | (Inr u, c) \<Rightarrow> (Inr (Some note), st3\<lparr> cu := c \<rparr>)))))"

text \<open>
  \<open>_sync_note\<close>. It returns \<open>None\<close> at once when the cache has a note under the converted
  identifier. Otherwise it builds the links of the note, uploads the attachments and the
  images, and creates and stores the note.
\<close>

definition sync_note ::
  "collab \<Rightarrow> WizDocument \<Rightarrow> Adapter \<Rightarrow> (error + JoplinNote option) \<times> Adapter" where
  "sync_note E document st =
     (let note_id = tojoplinid (wd_guid document)
      in case get_note note_id (cu st) of
           Some jn \<Rightarrow> (Inr None, st)
         | None \<Rightarrow>
             (let jils0 = links_of_document note_id (wd_internal_links document) []
              in case upload_attachments E note_id (wd_attachments document) jils0 st of
                   (jils1, st1) \<Rightarrow>
                     (case upload_images E note_id (wd_images document) jils1 st1 of
                        (joplin_internal_links, st2) \<Rightarrow>
                          create_and_store E document note_id joplin_internal_links st2)))"

text \<open>
  The loop over the documents in \<open>sync_all\<close> and \<open>sync_note_by_location\<close>: an exception
  of \<open>_sync_note\<close> ends the run.
\<close>

fun sync_notes :: "collab \<Rightarrow> WizDocument list \<Rightarrow> Adapter \<Rightarrow> (error + unit) \<times> Adapter" where
  "sync_notes E [] st = (Inr (), st)"
| "sync_notes E (wd # rest) st =
     (case sync_note E wd st of
        (Inl e, st1) \<Rightarrow> (Inl e, st1)
      | (Inr r, st1) \<Rightarrow> sync_notes E rest st1)"

section \<open>The rounds of the folder loop\<close>

text \<open>
  The rounds that the loop of \<open>sync_folders\<close> executes on a list of entries, each with its
  entry, the state before the round and the state after it. An exception ends the loop, so
  the round that raises is the last one.
\<close>

fun sync_folders_rounds ::
  "collab \<Rightarrow> Location2Folder list \<Rightarrow> Adapter \<Rightarrow> (Location2Folder \<times> Adapter \<times> Adapter) list" where
  "sync_folders_rounds E [] st = []"
| "sync_folders_rounds E (l2f # rest) st =
     (case sync_folder_step E l2f st of
        (Inl e, st1) \<Rightarrow> [(l2f, st, st1)]
      | (Inr u, st1) \<Rightarrow> (l2f, st, st1) # sync_folders_rounds E rest st1)"

text \<open>
  What a folder creation submitted for entry \<open>l2f\<close> in state \<open>st\<close> with parent identifier
  \<open>pid\<close> has to satisfy: a top-level entry is created without a parent; any other entry is
  created under the identifier that its parent entry holds in the cache of \<open>st\<close>, and the
  parent holds one.
\<close>

definition parent_confirmed :: "Location2Folder \<Rightarrow> Adapter \<Rightarrow> string option \<Rightarrow> bool" where
  "parent_confirmed l2f st pid =
     (case l2f_parent_location l2f of
        None \<Rightarrow> pid = None
      | Some p \<Rightarrow> pid \<noteq> None \<and>
          (case map_of (l2f_cache (cu st)) p of None \<Rightarrow> False | Some pe \<Rightarrow> l2f_id pe = pid))"

section \<open>Example inputs\<close>

text \<open>
  A Joplin service that creates what it is asked to create, under the requested identifier
  where the call has one, on a file system where every file exists; attachments are
  objects of the class of \<open>w2j.wiz_mac\<close>, which have no attribute \<open>file_path\<close>.
\<close>

definition example_collab :: collab where
  "example_collab =
     \<lparr> post_folder = (\<lambda>history title parent_id.
          Inr \<lparr> jf_id = Some (''id-'' @ title), jf_title = title, jf_created_time = 0,
                jf_updated_time = 0, jf_parent_id = parent_id \<rparr>),
       get_resources = (\<lambda>history. Inr []),
       create_resource = (\<lambda>history args.
          case args of
            Attributes_data title filename content \<Rightarrow>
              Inr (Some \<lparr> jr_id = ''res-'' @ title, jr_title = title, jr_filename = filename,
                          jr_created_time = 0, jr_resource_type = 1 \<rparr>)
          | Positional content name mime \<Rightarrow>
              Inr (Some \<lparr> jr_id = ''res-'' @ name, jr_title = name, jr_filename = name,
                          jr_created_time = 0, jr_resource_type = 0 \<rparr>)),
       post_note = (\<lambda>history note_id title body is_markdown folder_id url created modified.
          Inr \<lparr> jn_id = note_id, jn_title = title,
                jn_parent_id = (case folder_id of None \<Rightarrow> [] | Some f \<Rightarrow> f),
                jn_markup_language = (if is_markdown then 1 else 0),
                jn_location = Some ''/Work/'', jn_created_time = created,
                jn_updated_time = modified, jn_folder = None, jn_internal_links = [],
                jn_resources = [], jn_tags = [] \<rparr>),
       path_exists = (\<lambda>path. True),
       open_rb = (\<lambda>path. Inr ''data''),
       file_path = (\<lambda>attachment. Inl AttributeError),
       get_text = (\<lambda>body. body) \<rparr>"

text \<open>
  A cache with the folder \<open>/Work/\<close> and its child \<open>/Work/Projects/\<close>, already created in
  Joplin as \<open>f1\<close> and \<open>f2\<close>.
\<close>

definition example_work :: Location2Folder where
  "example_work = \<lparr> l2f_location = ''/Work/'', l2f_title = ''Work'', l2f_parent_location = None,
       l2f_level = 1, l2f_id = Some ''f1'', l2f_parent_id = None \<rparr>"

definition example_projects :: Location2Folder where
  "example_projects = \<lparr> l2f_location = ''/Work/Projects/'', l2f_title = ''Projects'',
       l2f_parent_location = Some ''/Work/'', l2f_level = 2, l2f_id = Some ''f2'',
       l2f_parent_id = Some ''f1'' \<rparr>"

definition example_folder :: JoplinFolder where
  "example_folder = \<lparr> jf_id = Some ''f1'', jf_title = ''Work'', jf_created_time = 0,
       jf_updated_time = 0, jf_parent_id = None \<rparr>"

definition example_subfolder :: JoplinFolder where
  "example_subfolder = \<lparr> jf_id = Some ''f2'', jf_title = ''Projects'', jf_created_time = 0,
       jf_updated_time = 0, jf_parent_id = Some ''f1'' \<rparr>"

definition example_cu :: ConvertUtil where
  "example_cu = \<lparr> l2f_cache = [(''/Work/'', example_work), (''/Work/Projects/'', example_projects)],
       folders = [(Some ''f1'', example_folder), (Some ''f2'', example_subfolder)], tags = [],
       notes = [], resources = [], internal_links = [],
       tbl_l2f = [example_work, example_projects],
       tbl_note = [], tbl_resource = [], tbl_internal_link = [], tbl_note_tag = [] \<rparr>"

definition example_adapter :: Adapter where
  "example_adapter = \<lparr> cu = example_cu, jda_calls = [] \<rparr>"

text \<open>A document in \<open>/Work/\<close> with one attachment and one image.\<close>

definition example_attachment :: WizAttachment where
  "example_attachment = \<lparr> wa_guid = ''52935f17-c1bb-45b7-b443-b7ba1b6f854e'',
       wa_doc_guid = ''8337764c-f89d-4267-bdf2-2e26ff156098'', wa_name = ''a.pdf'',
       wa_file_name = ''{52935f17}a.pdf'', wa_modified = 0,
       wa_file = ''att/{52935f17}a.pdf'' \<rparr>"

definition example_image :: WizImage where
  "example_image = \<lparr> wi_outerhtml = None, wi_src = ''index_files/p.png'',
       wi_file = Some ''note/index_files/p.png'', wi_missing = False \<rparr>"

definition example_document :: WizDocument where
  "example_document = \<lparr> wd_guid = ''8337764c-f89d-4267-bdf2-2e26ff156098'', wd_title = ''T'',
       wd_location = ''/Work/'', wd_url = None, wd_created = 0, wd_modified = 0,
       wd_body = ''hello'', wd_is_markdown = False, wd_attachments = [example_attachment],
       wd_images = [example_image], wd_internal_links = [] \<rparr>"

text \<open>A note with one tag and one internal link, as \<open>add_note\<close> receives it.\<close>

definition example_tag :: JoplinTag where
  "example_tag = \<lparr> jt_id = ''t1'', jt_title = ''todo'', jt_created_time = 5,
       jt_updated_time = 5 \<rparr>"

definition example_link :: JoplinInternalLink where
  "example_link = \<lparr> jil_note_id = ''n1'', jil_resource_id = ''r1'', jil_title = ''a.pdf'',
       jil_link_type = ''open_attachment'', jil_outertext = Some [] \<rparr>"

definition example_note :: JoplinNote where
  "example_note = \<lparr> jn_id = ''n1'', jn_title = ''T'', jn_parent_id = ''f1'',
       jn_markup_language = 0, jn_location = Some ''/Work/'', jn_created_time = 1,
       jn_updated_time = 2, jn_folder = Some example_folder,
       jn_internal_links = [(''n1-r1'', example_link)], jn_resources = [],
       jn_tags = [(''t1'', example_tag)] \<rparr>"

text \<open>
  A cache whose two entries have no identifier yet, the child stored before its parent,
  and a cache whose only entry names a parent that the cache does not have.
\<close>

definition example_root :: Location2Folder where
  "example_root = Location2Folder_of ''/a/''"

definition example_child :: Location2Folder where
  "example_child = Location2Folder_of ''/a/b/''"

definition example_pending :: Adapter where
  "example_pending =
     \<lparr> cu = example_cu\<lparr> l2f_cache := [(''/a/b/'', example_child), (''/a/'', example_root)],
                          folders := [], tbl_l2f := [example_child, example_root] \<rparr>,
       jda_calls = [] \<rparr>"

definition example_orphan :: Adapter where
  "example_orphan =
     \<lparr> cu = example_cu\<lparr> l2f_cache := [(''/a/b/'', example_child)],
                          folders := [], tbl_l2f := [example_child] \<rparr>,
       jda_calls = [] \<rparr>"

text \<open>
  A Joplin service honours the requested identifier when every note it creates has the
  identifier the call asked for.
\<close>

definition honours_requested_id :: "collab \<Rightarrow> bool" where
  "honours_requested_id E =
     (\<forall>history note_id title body is_markdown folder_id url created modified note.
        post_note E history note_id title body is_markdown folder_id url created modified = Inr note
        \<longrightarrow> jn_id note = note_id)"

section \<open>The rewriting of a body, described\<close>

text \<open>
  The links that \<open>convert_joplin_body\<close> lists in the trailing block are the links of type
  \<open>open_attachment\<close>.
\<close>

definition is_attachment :: "JoplinInternalLink \<Rightarrow> bool" where
  "is_attachment jil = (jil_link_type jil = ''open_attachment'')"

text \<open>
  The substitutions alone: link by link, in the order of the list, every occurrence of a
  link's original text that is known (neither \<open>None\<close> nor empty) is replaced by the
  target-addressed form of the link.
\<close>

fun inline_substitutions :: "bool \<Rightarrow> JoplinInternalLink list \<Rightarrow> string \<Rightarrow> string" where
  "inline_substitutions is_markdown [] body = body"
| "inline_substitutions is_markdown (jil # rest) body =
     inline_substitutions is_markdown rest
       (if truthy_str (jil_outertext jil)
        then str_replace (the (jil_outertext jil)) (gen_ilstr is_markdown jil) body
        else body)"

text \<open>
  A body seen as a sequence of pieces: plain text, and references, each written in the
  source body as the original text of its link and in the target body as the
  target-addressed form of its link.
\<close>

datatype chunk = Text string | Ref JoplinInternalLink

definition source_chunk :: "chunk \<Rightarrow> string" where
  "source_chunk c = (case c of Text s \<Rightarrow> s | Ref jil \<Rightarrow> the (jil_outertext jil))"

definition target_chunk :: "bool \<Rightarrow> chunk \<Rightarrow> string" where
  "target_chunk is_markdown c = (case c of Text s \<Rightarrow> s | Ref jil \<Rightarrow> gen_ilstr is_markdown jil)"

definition source_body :: "chunk list \<Rightarrow> string" where
  "source_body cs = concat (map source_chunk cs)"

definition target_body :: "bool \<Rightarrow> chunk list \<Rightarrow> string" where
  "target_body is_markdown cs = concat (map (target_chunk is_markdown) cs)"

text \<open>
  A piece as it is written once the links \<open>processed\<close> have been substituted: a reference
  through one of them in its target form, any other reference still in its original text.
\<close>

definition partial_chunk :: "bool \<Rightarrow> JoplinInternalLink list \<Rightarrow> chunk \<Rightarrow> string" where
  "partial_chunk is_markdown processed c =
     (case c of
        Text s \<Rightarrow> s
      | Ref jil \<Rightarrow> if jil \<in> set processed then gen_ilstr is_markdown jil
                   else the (jil_outertext jil))"

text \<open>
  \<open>no_stray old rd jil cs\<close>: in the body written by \<open>rd\<close>, no occurrence of \<open>old\<close> begins
  inside a piece other than a reference through \<open>jil\<close>. \<open>literals_clear\<close> asks this of
  every link with a known original text at the moment the loop comes to it, and asks of a
  link without one that no piece refers through it.
\<close>

fun no_stray :: "string \<Rightarrow> (chunk \<Rightarrow> string) \<Rightarrow> JoplinInternalLink \<Rightarrow> chunk list \<Rightarrow> bool" where
  "no_stray old rd jil [] = True"
| "no_stray old rd jil (c # cs) =
     ((c = Ref jil \<or>
       list_all (\<lambda>p. \<not> prefix old (drop p (rd c @ concat (map rd cs)))) [0..<length (rd c)])
      \<and> no_stray old rd jil cs)"

fun literals_clear ::
  "bool \<Rightarrow> JoplinInternalLink list \<Rightarrow> JoplinInternalLink list \<Rightarrow> chunk list \<Rightarrow> bool" where
  "literals_clear is_markdown processed [] cs = True"
| "literals_clear is_markdown processed (jil # todo) cs =
     ((if truthy_str (jil_outertext jil)
       then no_stray (the (jil_outertext jil)) (partial_chunk is_markdown processed) jil cs
       else Ref jil \<notin> set cs)
      \<and> literals_clear is_markdown (processed @ [jil]) todo cs)"

definition refs_within :: "JoplinInternalLink list \<Rightarrow> chunk list \<Rightarrow> bool" where
  "refs_within links cs =
     list_all (\<lambda>c. case c of Text s \<Rightarrow> True | Ref jil \<Rightarrow> jil \<in> set links) cs"

text \<open>The number of places at which \<open>pat\<close> occurs in \<open>s\<close>.\<close>

definition count_occurrences :: "string \<Rightarrow> string \<Rightarrow> nat" where
  "count_occurrences pat s = length (filter (\<lambda>p. prefix pat (drop p s)) [0..<Suc (length s)])"

text \<open>
  A link to a document and a link to an attachment, and a body that refers through both.
\<close>

definition example_doc_link :: JoplinInternalLink where
  "example_doc_link = \<lparr> jil_note_id = ''n1'', jil_resource_id = ''d2'', jil_title = ''Plan'',
       jil_link_type = ''open_document'',
       jil_outertext = Some ''<a href=\"wiz://open_document?guid=d-2\">Plan</a>'' \<rparr>"

definition example_att_link :: JoplinInternalLink where
  "example_att_link = \<lparr> jil_note_id = ''n1'', jil_resource_id = ''r1'', jil_title = ''a.pdf'',
       jil_link_type = ''open_attachment'',
       jil_outertext = Some ''<a href=\"wiz://open_attachment?guid=r-1\">a.pdf</a>'' \<rparr>"

definition example_body :: "chunk list" where
  "example_body = [Text ''See '', Ref example_doc_link, Text '' and '', Ref example_att_link,
                   Text ''.'']"

section \<open>The rounds of the image loop\<close>



section \<open>Facts about the string primitives\<close>

lemma split_on_not_Nil: "split_on c s \<noteq> []"
  by (induction s) (auto split: list.splits)

lemma concat_split_on: "join [] (split_on c s) = filter (\<lambda>x. x \<noteq> c) s"
proof (induction s)
  case Nil
  show ?case by simp
next
  case (Cons x xs)
  have j: "\<And>y ys. join [] (y # ys) = y @ join [] ys"
    by (case_tac ys) simp_all
  obtain y ys where s: "split_on c xs = y # ys"
    using split_on_not_Nil [of c xs] by (cases "split_on c xs") auto
  show ?case using Cons s by (simp add: j)
qed

lemma split_on_no_sep: "c \<notin> set s \<Longrightarrow> split_on c s = [s]"
  by (induction s) auto

lemma split_on_append_sep:
  "c \<notin> set s \<Longrightarrow> split_on c (s @ c # t) = s # split_on c t"
  by (induction s) auto

lemma split_on_join:
  "segs \<noteq> [] \<Longrightarrow> \<forall>s \<in> set segs. c \<notin> set s \<Longrightarrow> split_on c (join [c] segs) = segs"
proof (induction segs)
  case Nil
  then show ?case by simp
next
  case (Cons x xs)
  show ?case
  proof (cases xs)
    case Nil
    then show ?thesis using Cons.prems by (simp add: split_on_no_sep)
  next
    case (Cons y ys)
    then show ?thesis using Cons.IH Cons.prems by (simp add: split_on_append_sep)
  qed
qed

lemma join_split_on: "join [c] (split_on c s) = s"
proof (induction s)
  case Nil
  show ?case by simp
next
  case (Cons x xs)
  obtain y ys where s: "split_on c xs = y # ys"
    using split_on_not_Nil [of c xs] by (cases "split_on c xs") auto
  show ?case
  proof (cases "x = c")
    case True
    then show ?thesis using Cons s by simp
  next
    case False
    then show ?thesis using Cons s by (cases ys) auto
  qed
qed

lemma split_on_segments_clean: "\<forall>t \<in> set (split_on c s). c \<notin> set t"
proof (induction s)
  case Nil
  show ?case by simp
next
  case (Cons x xs)
  then show ?case by (auto split: list.splits)
qed

section \<open>Identifier conversion round-trips\<close>

lemma is_hex_not_hyphen: "is_hex c \<Longrightarrow> c \<noteq> CHR ''-''"
  by (auto simp: is_hex_def)

lemma canonical_uuid_nth:
  assumes "canonical_uuid s"
  shows "length s = 36"
    and "\<And>i. i < 36 \<Longrightarrow> i \<in> {8, 13, 18, 23} \<Longrightarrow> s ! i = CHR ''-''"
    and "\<And>i. i < 36 \<Longrightarrow> i \<notin> {8, 13, 18, 23} \<Longrightarrow> s ! i \<noteq> CHR ''-''"
proof -
  have all: "\<forall>i<36. if i \<in> {8, 13, 18, 23} then s ! i = CHR ''-'' else is_hex (s ! i)"
    using assms unfolding canonical_uuid_def list_all_iff by simp
  show "length s = 36" using assms by (simp add: canonical_uuid_def)
  show "\<And>i. i < 36 \<Longrightarrow> i \<in> {8, 13, 18, 23} \<Longrightarrow> s ! i = CHR ''-''"
    using all by metis
  show "\<And>i. i < 36 \<Longrightarrow> i \<notin> {8, 13, 18, 23} \<Longrightarrow> s ! i \<noteq> CHR ''-''"
    using all is_hex_not_hyphen by metis
qed

lemma group_without_sep:
  assumes len: "length s = 36" and rng: "lo + n \<le> 36"
    and clean: "\<And>i. lo \<le> i \<Longrightarrow> i < lo + n \<Longrightarrow> s ! i \<noteq> c"
  shows "filter (\<lambda>x. x \<noteq> c) (take n (drop lo s)) = take n (drop lo s)"
proof -
  have "\<forall>x \<in> set (take n (drop lo s)). x \<noteq> c"
  proof
    fix x assume "x \<in> set (take n (drop lo s))"
    then obtain i where i: "i < length (take n (drop lo s))" "x = take n (drop lo s) ! i"
      by (auto simp: in_set_conv_nth)
    then have "i < n" "x = s ! (lo + i)" using len rng by auto
    then show "x \<noteq> c" using clean [of "lo + i"] by simp
  qed
  then show ?thesis by (simp add: filter_id_conv)
qed

lemma uuid_decompose:
  assumes "canonical_uuid s"
  shows "s = take 8 s @ CHR ''-'' # take 4 (drop 9 s) @ CHR ''-'' # take 4 (drop 14 s)
             @ CHR ''-'' # take 4 (drop 19 s) @ CHR ''-'' # take 12 (drop 24 s)"
proof -
  note c = canonical_uuid_nth [OF assms]
  have len: "length s = 36" by (rule c(1))
  have h: "s ! 8 = CHR ''-''" "s ! 13 = CHR ''-''" "s ! 18 = CHR ''-''" "s ! 23 = CHR ''-''"
    using c(2) by simp_all
  have 1: "s = take 8 s @ s ! 8 # drop 9 s"
    using id_take_nth_drop [of 8 s] len by simp
  have 2: "drop 9 s = take 4 (drop 9 s) @ s ! 13 # drop 14 s"
    using id_take_nth_drop [of 4 "drop 9 s"] len by simp
  have 3: "drop 14 s = take 4 (drop 14 s) @ s ! 18 # drop 19 s"
    using id_take_nth_drop [of 4 "drop 14 s"] len by simp
  have 4: "drop 19 s = take 4 (drop 19 s) @ s ! 23 # drop 24 s"
    using id_take_nth_drop [of 4 "drop 19 s"] len by simp
  have 5: "drop 24 s = take 12 (drop 24 s)" using len by simp
  show ?thesis
    using 1 2 3 4 5 h by metis
qed

text \<open>
  Claim C3. For every canonical hyphen-delimited identifier (groups of 8, 4, 4, 4 and 12
  hexadecimal digits), removing the hyphens with \<open>tojoplinid\<close> and re-inserting them with
  \<open>towizid\<close> gives back the identifier.
\<close>

theorem id_roundtrip: "canonical_uuid guid \<Longrightarrow> towizid (tojoplinid guid) = guid"
proof -
  assume can: "canonical_uuid guid"
  note c = canonical_uuid_nth [OF can]
  define a where "a = take 8 guid"
  define b where "b = take 4 (drop 9 guid)"
  define c' where "c' = take 4 (drop 14 guid)"
  define d where "d = take 4 (drop 19 guid)"
  define e where "e = take 12 (drop 24 guid)"
  have dec: "guid = a @ CHR ''-'' # b @ CHR ''-'' # c' @ CHR ''-'' # d @ CHR ''-'' # e"
    unfolding a_def b_def c'_def d_def e_def by (rule uuid_decompose [OF can])
  have lens: "length a = 8" "length b = 4" "length c' = 4" "length d = 4" "length e = 12"
    using c(1) by (simp_all add: a_def b_def c'_def d_def e_def)
  have fa: "filter (\<lambda>x. x \<noteq> CHR ''-'') a = a"
    using group_without_sep [of guid 0 8 "CHR ''-''"] c by (simp add: a_def)
  have fb: "filter (\<lambda>x. x \<noteq> CHR ''-'') b = b"
    unfolding b_def by (rule group_without_sep [OF c(1)]) (use c(3) in auto)
  have fc: "filter (\<lambda>x. x \<noteq> CHR ''-'') c' = c'"
    unfolding c'_def by (rule group_without_sep [OF c(1)]) (use c(3) in auto)
  have fd: "filter (\<lambda>x. x \<noteq> CHR ''-'') d = d"
    unfolding d_def by (rule group_without_sep [OF c(1)]) (use c(3) in auto)
  have fe: "filter (\<lambda>x. x \<noteq> CHR ''-'') e = e"
    unfolding e_def by (rule group_without_sep [OF c(1)]) (use c(3) in auto)
  have strip: "tojoplinid guid = a @ b @ c' @ d @ e"
    unfolding tojoplinid_def concat_split_on
    by (subst dec) (simp add: fa fb fc fd fe)
  have "towizid (a @ b @ c' @ d @ e) = a @ ''-'' @ b @ ''-'' @ c' @ ''-'' @ d @ ''-'' @ e"
    using lens by (simp add: towizid_def slice_def Let_def)
  then show ?thesis using strip dec by simp
qed

theorem id_roundtrip_witness:
  "canonical_uuid ''8337764c-f89d-4267-bdf2-2e26ff156098'' \<and>
   tojoplinid ''8337764c-f89d-4267-bdf2-2e26ff156098'' = ''8337764cf89d4267bdf22e26ff156098'' \<and>
   towizid (tojoplinid ''8337764c-f89d-4267-bdf2-2e26ff156098'') =
     ''8337764c-f89d-4267-bdf2-2e26ff156098''"
proof -
  have h: "canonical_uuid ''8337764c-f89d-4267-bdf2-2e26ff156098''"
    by code_simp
  have s: "tojoplinid ''8337764c-f89d-4267-bdf2-2e26ff156098'' = ''8337764cf89d4267bdf22e26ff156098''"
    by (simp add: tojoplinid_def)
  show ?thesis using h s id_roundtrip [OF h] by simp
qed

section \<open>Location decomposition\<close>

lemma trim_wrapped:
  "slice 1 (length (''/'' @ inner @ ''/'') - 1) (''/'' @ inner @ ''/'') = inner"
  by (simp add: slice_def)

text \<open>
  Every delimiter-wrapped location is the wrapped join of a non-empty list of segments that
  contain no delimiter, so the theorem below speaks of every such location.
\<close>

lemma wrapped_location_segments:
  "\<exists>segs. segs \<noteq> [] \<and> (\<forall>s \<in> set segs. CHR ''/'' \<notin> set s) \<and>
          ''/'' @ inner @ ''/'' = ''/'' @ join ''/'' segs @ ''/''"
  using split_on_not_Nil [of "CHR ''/''" inner] split_on_segments_clean [of "CHR ''/''" inner]
    join_split_on [of "CHR ''/''" inner]
  by (intro exI [of _ "split_on CHR ''/'' inner"]) simp

text \<open>
  Claim C10. For a location made of the segments \<open>segs\<close> joined by the delimiter and
  wrapped in it, the chain entry built from the location has the last segment as title,
  the number of segments as level, and as parent location the wrapped join of all
  segments but the last when there are at least two of them, \<open>None\<close> when there is one.
\<close>

theorem location_decomposition:
  assumes "segs \<noteq> []" and "\<forall>s \<in> set segs. CHR ''/'' \<notin> set s"
  shows "l2f_title (Location2Folder_of (''/'' @ join ''/'' segs @ ''/'')) = last segs
       \<and> l2f_level (Location2Folder_of (''/'' @ join ''/'' segs @ ''/'')) = int (length segs)
       \<and> l2f_parent_location (Location2Folder_of (''/'' @ join ''/'' segs @ ''/'')) =
           (if 2 \<le> length segs then Some (''/'' @ join ''/'' (butlast segs) @ ''/'') else None)"
proof -
  have "split_on CHR ''/'' (slice 1 (length (''/'' @ join ''/'' segs @ ''/'') - 1)
          (''/'' @ join ''/'' segs @ ''/'')) = segs"
    using split_on_join [OF assms] by (simp only: trim_wrapped)
  then show ?thesis
    by (simp add: Location2Folder_of_def Location2Folder_init_def Let_def del: append.simps)
qed

theorem location_decomposition_witness:
  "[''Work'', ''Projects''] \<noteq> [] \<and> CHR ''/'' \<notin> set ''Work'' \<and> CHR ''/'' \<notin> set ''Projects''
   \<and> Location2Folder_of ''/Work/Projects/'' =
       \<lparr> l2f_location = ''/Work/Projects/'', l2f_title = ''Projects'',
         l2f_parent_location = Some ''/Work/'', l2f_level = 2, l2f_id = None,
         l2f_parent_id = None \<rparr>
   \<and> l2f_parent_location (Location2Folder_of ''/Work/'') = None"
proof -
  have h1: "[''Work'', ''Projects''] \<noteq> []" by simp
  have h2: "\<forall>s \<in> set [''Work'', ''Projects'']. CHR ''/'' \<notin> set s" by simp
  have h3: "[''Work''] \<noteq> []" by simp
  have h4: "\<forall>s \<in> set [''Work'']. CHR ''/'' \<notin> set s" by simp
  have a: "Location2Folder_of ''/Work/Projects/'' =
       \<lparr> l2f_location = ''/Work/Projects/'', l2f_title = ''Projects'',
         l2f_parent_location = Some ''/Work/'', l2f_level = 2, l2f_id = None,
         l2f_parent_id = None \<rparr>"
    using location_decomposition [OF h1 h2]
    by (simp add: Location2Folder_of_def Location2Folder_init_def Let_def slice_def)
  have b: "l2f_parent_location (Location2Folder_of ''/Work/'') = None"
    using location_decomposition [OF h3 h4] by simp
  show ?thesis using h1 h2 a b by simp
qed

section \<open>Dictionaries\<close>

lemma map_of_dict_set: "map_of (dict_set k v d) = (map_of d)(k \<mapsto> v)"
  by (induction d) (auto simp: fun_eq_iff)

section \<open>Note-level synchronisation is idempotent\<close>

lemma sync_note_cached:
  "get_note (tojoplinid (wd_guid document)) (cu st) \<noteq> None \<Longrightarrow>
   sync_note E document st = (Inr None, st)"
  by (auto simp: sync_note_def Let_def)

lemma sync_notes_all_cached:
  "\<forall>d \<in> set docs. get_note (tojoplinid (wd_guid d)) (cu st) \<noteq> None \<Longrightarrow>
   sync_notes E docs st = (Inr (), st)"
  by (induction docs) (simp_all add: sync_note_cached)

lemma upload_wiz_attachment_cu: "cu (snd (upload_wiz_attachment E a st)) = cu st"
  by (auto simp: upload_wiz_attachment_def get_resource_by_filename_def submit_def Let_def
           split: sum.splits option.splits)

lemma upload_attachments_cu: "cu (snd (upload_attachments E note_id as jils st)) = cu st"
proof (induction as arbitrary: jils st)
  case Nil
  show ?case by simp
next
  case (Cons a as)
  obtain r st1 where up: "upload_wiz_attachment E a st = (r, st1)" by force
  have "cu st1 = cu st" using upload_wiz_attachment_cu [of E a st] up by simp
  then show ?case using Cons up by (auto simp: Let_def split: option.splits)
qed

lemma add_resource_notes: "notes (snd (add_resource jr c)) = notes c"
  by (simp add: add_resource_def)

lemma upload_wiz_image_notes: "notes (cu (snd (upload_wiz_image E img st))) = notes (cu st)"
  by (auto simp: upload_wiz_image_def get_resource_by_filename_def submit_def Let_def
        add_resource_def split: sum.splits option.splits prod.splits if_splits)

lemma upload_images_notes:
  "notes (cu (snd (upload_images E note_id imgs jils st))) = notes (cu st)"
proof (induction imgs arbitrary: jils st)
  case Nil
  show ?case by simp
next
  case (Cons a imgs)
  obtain r st1 where up: "upload_wiz_image E a st = (r, st1)" by force
  have "notes (cu st1) = notes (cu st)" using upload_wiz_image_notes [of E a st] up by simp
  then show ?case using Cons up by (auto simp: Let_def split: option.splits sum.splits)
qed

lemma add_note_tag_returns: "add_note_tag note tag c = (Inr (), c)"
  by (simp add: add_note_tag_def fetchone_count_def truthy_row_def)

lemma add_note_tags_returns: "add_note_tags note tgs c = (Inr (), c)"
  by (induction tgs) (simp_all add: add_note_tag_returns)

lemma add_internal_lnk_notes: "notes (snd (add_internal_lnk jil c)) = notes c"
  by (simp add: add_internal_lnk_def)

lemma add_internal_lnks_notes: "notes (snd (add_internal_lnks jils c)) = notes c"
proof (induction jils arbitrary: c)
  case Nil
  show ?case by simp
next
  case (Cons jil jils)
  obtain r c1 where a: "add_internal_lnk jil c = (r, c1)" by force
  have "notes c1 = notes c" using add_internal_lnk_notes [of jil c] a by simp
  then show ?case using Cons a by (cases r) auto
qed

lemma add_note_keeps:
  "map_of (notes c) k \<noteq> None \<Longrightarrow> map_of (notes (snd (add_note note c))) k \<noteq> None"
  by (auto simp: add_note_def Let_def add_note_tags_returns add_internal_lnks_notes
      map_of_dict_set)

lemma add_note_records:
  "fst (add_note note c) = Inr () \<Longrightarrow> map_of (notes (snd (add_note note c))) (jn_id note) \<noteq> None"
  by (auto simp: add_note_def Let_def add_note_tags_returns add_internal_lnks_notes
      map_of_dict_set split: if_splits)

lemma create_and_store_keeps:
  assumes "map_of (notes (cu st)) k \<noteq> None"
  shows "map_of (notes (cu (snd (create_and_store E document n jils st)))) k \<noteq> None"
proof (cases "get_folder None (Some (wd_location document)) (cu st)")
  case None
  then show ?thesis using assms by (simp add: create_and_store_def)
next
  case (Some folder)
  let ?body = "convert_joplin_body (get_text E) (wd_body document) (wd_is_markdown document)
                 (map snd jils)"
  let ?st3 = "submit (Post_note n (wd_title document) ?body (wd_is_markdown document)
                (jf_id folder) (wd_url document) (wd_created document) (wd_modified document)) st"
  have k3: "map_of (notes (cu ?st3)) k \<noteq> None" using assms by (simp add: submit_def)
  show ?thesis
  proof (cases "post_note E (jda_calls st) n (wd_title document) ?body (wd_is_markdown document)
                  (jf_id folder) (wd_url document) (wd_created document) (wd_modified document)")
    case (Inl e)
    then show ?thesis using Some k3 by (simp add: create_and_store_def Let_def)
  next
    case (Inr note0)
    show ?thesis
    proof (cases "get_tags (jn_id note0) (cu ?st3)")
      case (Inl e)
      then show ?thesis using Some Inr k3 by (simp add: create_and_store_def Let_def)
    next
      case tg: (Inr note_tags)
      let ?note = "note0\<lparr> jn_internal_links := jils, jn_folder := Some folder,
                           jn_tags := note_tags \<rparr>"
      obtain r c where a: "add_note ?note (cu ?st3) = (r, c)" by force
      have "map_of (notes c) k \<noteq> None"
        using add_note_keeps [OF k3, of ?note] a by simp
      then show ?thesis
        using Some Inr tg a by (cases r) (simp_all add: create_and_store_def Let_def)
    qed
  qed
qed

lemma create_and_store_records:
  assumes hon: "honours_requested_id E"
    and ok: "fst (create_and_store E document n jils st) = Inr r"
  shows "map_of (notes (cu (snd (create_and_store E document n jils st)))) n \<noteq> None"
proof (cases "get_folder None (Some (wd_location document)) (cu st)")
  case None
  then show ?thesis using ok by (simp add: create_and_store_def)
next
  case (Some folder)
  let ?body = "convert_joplin_body (get_text E) (wd_body document) (wd_is_markdown document)
                 (map snd jils)"
  let ?st3 = "submit (Post_note n (wd_title document) ?body (wd_is_markdown document)
                (jf_id folder) (wd_url document) (wd_created document) (wd_modified document)) st"
  show ?thesis
  proof (cases "post_note E (jda_calls st) n (wd_title document) ?body (wd_is_markdown document)
                  (jf_id folder) (wd_url document) (wd_created document) (wd_modified document)")
    case (Inl e)
    then show ?thesis using Some ok by (simp add: create_and_store_def Let_def)
  next
    case (Inr note0)
    have id: "jn_id note0 = n" using hon Inr unfolding honours_requested_id_def by blast
    show ?thesis
    proof (cases "get_tags (jn_id note0) (cu ?st3)")
      case (Inl e)
      then show ?thesis using Some Inr ok by (simp add: create_and_store_def Let_def)
    next
      case tg: (Inr note_tags)
      let ?note = "note0\<lparr> jn_internal_links := jils, jn_folder := Some folder,
                           jn_tags := note_tags \<rparr>"
      obtain r' c where a: "add_note ?note (cu ?st3) = (r', c)" by force
      show ?thesis
      proof (cases r')
        case (Inl e)
        then show ?thesis using Some Inr tg a ok by (simp add: create_and_store_def Let_def)
      next
        case ok': (Inr u)
        have "map_of (notes c) (jn_id ?note) \<noteq> None"
          using add_note_records [of ?note "cu ?st3"] a ok' by simp
        then show ?thesis
          using Some Inr tg a ok' id by (simp add: create_and_store_def Let_def)
      qed
    qed
  qed
qed

lemma sync_note_keeps:
  assumes "get_note k (cu st) \<noteq> None"
  shows "get_note k (cu (snd (sync_note E document st))) \<noteq> None"
proof (cases "get_note (tojoplinid (wd_guid document)) (cu st)")
  case (Some jn)
  then show ?thesis using assms by (simp add: sync_note_def Let_def)
next
  case None
  let ?n = "tojoplinid (wd_guid document)"
  let ?j0 = "links_of_document ?n (wd_internal_links document) []"
  obtain jils1 st1 where a: "upload_attachments E ?n (wd_attachments document) ?j0 st = (jils1, st1)"
    by force
  obtain jils2 st2 where b: "upload_images E ?n (wd_images document) jils1 st1 = (jils2, st2)"
    by force
  have "cu st1 = cu st"
    using upload_attachments_cu [of E ?n "wd_attachments document" ?j0 st] a by simp
  moreover have "notes (cu st2) = notes (cu st1)"
    using upload_images_notes [of E ?n "wd_images document" jils1 st1] b by simp
  ultimately have k2: "map_of (notes (cu st2)) k \<noteq> None" using assms by (simp add: get_note_def)
  show ?thesis
    using None a b create_and_store_keeps [OF k2, of E document ?n jils2]
    by (simp add: sync_note_def Let_def get_note_def)
qed

lemma sync_note_records:
  assumes hon: "honours_requested_id E"
    and ok: "fst (sync_note E document st) = Inr r"
  shows "get_note (tojoplinid (wd_guid document)) (cu (snd (sync_note E document st))) \<noteq> None"
proof (cases "get_note (tojoplinid (wd_guid document)) (cu st)")
  case (Some jn)
  then show ?thesis by (simp add: sync_note_def Let_def)
next
  case None
  let ?n = "tojoplinid (wd_guid document)"
  let ?j0 = "links_of_document ?n (wd_internal_links document) []"
  obtain jils1 st1 where a: "upload_attachments E ?n (wd_attachments document) ?j0 st = (jils1, st1)"
    by force
  obtain jils2 st2 where b: "upload_images E ?n (wd_images document) jils1 st1 = (jils2, st2)"
    by force
  have eq: "sync_note E document st = create_and_store E document ?n jils2 st2"
    using None a b by (simp add: sync_note_def Let_def)
  show ?thesis
    using create_and_store_records [OF hon, of document ?n jils2 st2 r] ok
    by (simp add: eq get_note_def)
qed

lemma sync_notes_keeps:
  "get_note k (cu st) \<noteq> None \<Longrightarrow> get_note k (cu (snd (sync_notes E docs st))) \<noteq> None"
proof (induction docs arbitrary: st)
  case Nil
  then show ?case by simp
next
  case (Cons d docs)
  obtain r st1 where s: "sync_note E d st = (r, st1)" by force
  have "get_note k (cu st1) \<noteq> None" using sync_note_keeps [OF Cons.prems, of E d] s by simp
  then show ?case using Cons.IH [of st1] s by (cases r) auto
qed

lemma sync_notes_records:
  assumes hon: "honours_requested_id E"
  shows "fst (sync_notes E docs st) = Inr () \<Longrightarrow>
         \<forall>d \<in> set docs. get_note (tojoplinid (wd_guid d)) (cu (snd (sync_notes E docs st))) \<noteq> None"
proof (induction docs arbitrary: st)
  case Nil
  then show ?case by simp
next
  case (Cons d docs)
  obtain r st1 where s: "sync_note E d st = (r, st1)" by force
  show ?case
  proof (cases r)
    case (Inl e)
    then show ?thesis using Cons.prems s by simp
  next
    case (Inr v)
    have own: "get_note (tojoplinid (wd_guid d)) (cu st1) \<noteq> None"
      using sync_note_records [OF hon, of d st v] s Inr by simp
    have rest: "fst (sync_notes E docs st1) = Inr ()" using Cons.prems s Inr by simp
    show ?thesis
      using Cons.IH [OF rest] sync_notes_keeps [OF own, of E docs] s Inr by simp
  qed
qed

lemma sync_notes_second_pass:
  assumes "honours_requested_id E" and "sync_notes E docs st = (Inr (), st1)"
  shows "sync_notes E docs st1 = (Inr (), st1)"
  using sync_notes_records [OF assms(1), of docs st] assms(2)
  by (intro sync_notes_all_cached) simp

text \<open>
  Claim C1. When every document of a list has a note in the cache under its converted
  identifier, \<open>_sync_note\<close> returns \<open>None\<close> for each of them and the loop over the list
  returns with the adapter state as it was: no call has been submitted to the Joplin
  service and the cache is unchanged. Hence, when the service creates notes under the
  requested identifier and a pass over the documents has completed, a second pass over the
  same documents submits no call and leaves the state of the first.
\<close>

theorem note_sync_idempotent:
  "((\<forall>d \<in> set docs. get_note (tojoplinid (wd_guid d)) (cu st) \<noteq> None) \<longrightarrow>
      sync_notes E docs st = (Inr (), st) \<and>
      (\<forall>d \<in> set docs. sync_note E d st = (Inr None, st)))
   \<and> (honours_requested_id E \<longrightarrow> sync_notes E docs st = (Inr (), st1) \<longrightarrow>
        sync_notes E docs st1 = (Inr (), st1))"
proof (intro conjI impI ballI)
  assume "\<forall>d \<in> set docs. get_note (tojoplinid (wd_guid d)) (cu st) \<noteq> None"
  then show "sync_notes E docs st = (Inr (), st)" by (rule sync_notes_all_cached)
next
  fix d
  assume "\<forall>d \<in> set docs. get_note (tojoplinid (wd_guid d)) (cu st) \<noteq> None" and "d \<in> set docs"
  then have "get_note (tojoplinid (wd_guid d)) (cu st) \<noteq> None" by simp
  then show "sync_note E d st = (Inr None, st)" by (rule sync_note_cached)
next
  assume "honours_requested_id E" and "sync_notes E docs st = (Inr (), st1)"
  then show "sync_notes E docs st1 = (Inr (), st1)" by (rule sync_notes_second_pass)
qed


theorem note_sync_idempotent_witness:
  "honours_requested_id example_collab \<and>
   fst (sync_notes example_collab [example_document] example_adapter) = Inr () \<and>
   map fst (notes (cu (snd (sync_notes example_collab [example_document] example_adapter)))) =
     [tojoplinid (wd_guid example_document)] \<and>
   sync_notes example_collab [example_document]
     (snd (sync_notes example_collab [example_document] example_adapter)) =
     (Inr (), snd (sync_notes example_collab [example_document] example_adapter)) \<and>
   sync_note example_collab example_document
     (snd (sync_notes example_collab [example_document] example_adapter)) =
     (Inr None, snd (sync_notes example_collab [example_document] example_adapter))"
proof -
  let ?st1 = "snd (sync_notes example_collab [example_document] example_adapter)"
  have hon: "honours_requested_id example_collab"
    by (simp add: honours_requested_id_def example_collab_def)
  have run: "fst (sync_notes example_collab [example_document] example_adapter) = Inr () \<and>
             map fst (notes (cu ?st1)) = [tojoplinid (wd_guid example_document)]"
    by (simp add: sync_note_def create_and_store_def upload_wiz_attachment_def
        upload_wiz_image_def example_collab_def example_attachment_def example_adapter_def
        get_resource_by_filename_def submit_def Let_def example_document_def example_image_def
        example_cu_def get_note_def tojoplinid_def add_resource_def basename_def
        convert_joplin_body_def JoplinInternalLink_init_def JoplinInternalLink_id_def
        truthy_str_def gen_end_ilstr_def gen_ilstr_def get_folder_def example_work_def
        example_folder_def get_tags_def add_note_def add_internal_lnk_def)
  then have pass: "sync_notes example_collab [example_document] example_adapter = (Inr (), ?st1)"
    by (simp add: prod_eq_iff)
  have cached: "\<forall>d \<in> set [example_document]. get_note (tojoplinid (wd_guid d)) (cu ?st1) \<noteq> None"
    using run by (auto simp: get_note_def map_of_eq_None_iff)
  have second: "sync_notes example_collab [example_document] ?st1 = (Inr (), ?st1)"
    using note_sync_idempotent [of "[example_document]" example_adapter example_collab ?st1]
      hon pass by blast
  have single: "sync_note example_collab example_document ?st1 = (Inr None, ?st1)"
    using note_sync_idempotent [of "[example_document]" ?st1 example_collab ?st1] cached
    by simp
  show ?thesis using hon run second single by simp
qed

section \<open>Folder creation: order and parents\<close>

lemma step_submission:
  "sync_folder_step E l2f st = (r, st1) \<Longrightarrow>
     jda_calls st1 = jda_calls st \<or>
     (\<exists>pid. jda_calls st1 = jda_calls st @ [Post_folder (l2f_title l2f) pid] \<and>
            parent_confirmed l2f st pid)"
  by (auto simp: sync_folder_step_def parent_confirmed_def submit_def Let_def
           split: option.splits sum.splits prod.splits)

lemma step_parent_absent:
  "l2f_parent_location l2f = Some p \<Longrightarrow> map_of (l2f_cache (cu st)) p = None \<Longrightarrow>
   sync_folder_step E l2f st = (Inl (ValueError_parent_not_found p), st)"
  by (simp add: sync_folder_step_def)

lemma step_parent_no_id:
  "l2f_parent_location l2f = Some p \<Longrightarrow> map_of (l2f_cache (cu st)) p = Some pe \<Longrightarrow>
   l2f_id pe = None \<Longrightarrow>
   sync_folder_step E l2f st = (Inl (ValueError_parent_no_id p), st)"
  by (simp add: sync_folder_step_def)

lemma loop_append:
  "sync_folders_loop E (pre @ es) st =
     (case sync_folders_loop E pre st of
        (Inl e, s) \<Rightarrow> (Inl e, s)
      | (Inr u, s) \<Rightarrow> sync_folders_loop E es s)"
  by (induction pre arbitrary: st) (auto split: prod.splits sum.splits)

lemma rounds_prefix: "prefix (map fst (sync_folders_rounds E es st)) es"
  by (induction es arbitrary: st) (auto split: prod.splits sum.splits)

lemma rounds_complete:
  "fst (sync_folders_loop E es st) = Inr () \<Longrightarrow> map fst (sync_folders_rounds E es st) = es"
  by (induction es arbitrary: st) (auto split: prod.splits sum.splits)

lemma rounds_are_steps:
  "(l2f, s, s1) \<in> set (sync_folders_rounds E es st) \<Longrightarrow> s1 = snd (sync_folder_step E l2f s)"
proof (induction es arbitrary: st)
  case Nil
  then show ?case by simp
next
  case (Cons a es)
  obtain r st1 where step: "sync_folder_step E a st = (r, st1)" by force
  show ?case
  proof (cases r)
    case (Inl e)
    then show ?thesis using Cons.prems step by auto
  next
    case (Inr u)
    then show ?thesis using Cons.prems Cons.IH [of st1] step by auto
  qed
qed

text \<open>The rounds begin in the initial state and end in the state the loop returns.\<close>

lemma rounds_first_state:
  "es \<noteq> [] \<Longrightarrow> fst (snd (hd (sync_folders_rounds E es st))) = st"
  by (cases es) (auto split: prod.splits sum.splits)

lemma rounds_last_state:
  "es \<noteq> [] \<Longrightarrow> snd (snd (last (sync_folders_rounds E es st))) = snd (sync_folders_loop E es st)"
proof (induction es arbitrary: st)
  case Nil
  then show ?case by simp
next
  case (Cons a es)
  show ?case
  proof (cases es)
    case Nil
    then show ?thesis by (auto split: prod.splits sum.splits)
  next
    case (Cons b bs)
    then have ne: "\<And>s. sync_folders_rounds E es s \<noteq> []"
      by (auto split: prod.splits sum.splits)
    show ?thesis using Cons.IH Cons ne by (auto split: prod.splits sum.splits)
  qed
qed

lemma rounds_submissions:
  assumes "(l2f, s, s1) \<in> set (sync_folders_rounds E es st)"
  shows "jda_calls s1 = jda_calls s \<or>
         (\<exists>pid. jda_calls s1 = jda_calls s @ [Post_folder (l2f_title l2f) pid] \<and>
                parent_confirmed l2f s pid)"
proof -
  have "s1 = snd (sync_folder_step E l2f s)" using assms by (rule rounds_are_steps)
  then have "sync_folder_step E l2f s = (fst (sync_folder_step E l2f s), s1)" by simp
  then show ?thesis by (rule step_submission)
qed

lemma step_calls_extend:
  "\<exists>new. jda_calls (snd (sync_folder_step E l2f st)) = jda_calls st @ new"
  using step_submission [of E l2f st "fst (sync_folder_step E l2f st)"
      "snd (sync_folder_step E l2f st)"]
  by auto

text \<open>
  The calls of a run of the loop are the calls that were there before, followed by the
  calls of its rounds, round after round.
\<close>

lemma loop_calls_are_rounds:
  "jda_calls (snd (sync_folders_loop E es st)) =
     jda_calls st @
     concat (map (\<lambda>(l2f, s, s1). drop (length (jda_calls s)) (jda_calls s1))
               (sync_folders_rounds E es st))"
proof (induction es arbitrary: st)
  case Nil
  show ?case by simp
next
  case (Cons a es)
  obtain r st1 where step: "sync_folder_step E a st = (r, st1)" by force
  obtain new where new: "jda_calls st1 = jda_calls st @ new"
    using step_calls_extend [of E a st] step by auto
  show ?case
  proof (cases r)
    case (Inl e)
    then show ?thesis using step new by simp
  next
    case (Inr u)
    then show ?thesis using step new Cons.IH [of st1] by simp
  qed
qed

lemma sync_folders_calls:
  "jda_calls (snd (sync_folders E st)) =
     jda_calls (snd (sync_folders_loop E (get_waiting_for_created_l2f (cu st)) st))"
  by (auto simp: sync_folders_def Let_def split: prod.splits sum.splits)

text \<open>
  Claim C2. The entries that \<open>sync_folders\<close> works on are exactly the entries of the cache
  without an identifier, in ascending order of level. The rounds of the loop take these
  entries in that order, all of them when no exception is raised. In every round, either
  no call is submitted, or one folder creation is submitted for the round's entry: without
  a parent for a top-level entry, and otherwise under the identifier that the parent entry
  holds in the cache at that moment.
\<close>

theorem folder_creation_order:
  "mset (get_waiting_for_created_l2f (cu st)) =
     mset (filter (\<lambda>v. l2f_id v = None) (map snd (l2f_cache (cu st))))
   \<and> sorted (map l2f_level (get_waiting_for_created_l2f (cu st)))
   \<and> prefix (map fst (sync_folders_rounds E (get_waiting_for_created_l2f (cu st)) st))
        (get_waiting_for_created_l2f (cu st))
   \<and> (fst (sync_folders E st) = Inr () \<longrightarrow>
        map fst (sync_folders_rounds E (get_waiting_for_created_l2f (cu st)) st) =
        get_waiting_for_created_l2f (cu st))
   \<and> (\<forall>(l2f, s, s1) \<in> set (sync_folders_rounds E (get_waiting_for_created_l2f (cu st)) st).
        s1 = snd (sync_folder_step E l2f s) \<and>
        (jda_calls s1 = jda_calls s \<or>
         (\<exists>pid. jda_calls s1 = jda_calls s @ [Post_folder (l2f_title l2f) pid] \<and>
                parent_confirmed l2f s pid)))"
proof (intro conjI impI)
  show "mset (get_waiting_for_created_l2f (cu st)) =
          mset (filter (\<lambda>v. l2f_id v = None) (map snd (l2f_cache (cu st))))"
    by (simp add: get_waiting_for_created_l2f_def)
  show "sorted (map l2f_level (get_waiting_for_created_l2f (cu st)))"
    by (simp add: get_waiting_for_created_l2f_def)
  show "prefix (map fst (sync_folders_rounds E (get_waiting_for_created_l2f (cu st)) st))
          (get_waiting_for_created_l2f (cu st))"
    by (rule rounds_prefix)
next
  assume "fst (sync_folders E st) = Inr ()"
  then have "fst (sync_folders_loop E (get_waiting_for_created_l2f (cu st)) st) = Inr ()"
    by (auto simp: sync_folders_def Let_def split: prod.splits sum.splits)
  then show "map fst (sync_folders_rounds E (get_waiting_for_created_l2f (cu st)) st) =
               get_waiting_for_created_l2f (cu st)"
    by (rule rounds_complete)
next
  show "\<forall>(l2f, s, s1) \<in> set (sync_folders_rounds E (get_waiting_for_created_l2f (cu st)) st).
          s1 = snd (sync_folder_step E l2f s) \<and>
          (jda_calls s1 = jda_calls s \<or>
           (\<exists>pid. jda_calls s1 = jda_calls s @ [Post_folder (l2f_title l2f) pid] \<and>
                  parent_confirmed l2f s pid))"
    using rounds_are_steps rounds_submissions by fast
qed

theorem folder_creation_order_witness:
  "get_waiting_for_created_l2f (cu example_pending) = [example_root, example_child]
   \<and> map snd (l2f_cache (cu example_pending)) = [example_child, example_root]
   \<and> fst (sync_folders example_collab example_pending) = Inr ()
   \<and> jda_calls (snd (sync_folders example_collab example_pending)) =
       [Post_folder ''a'' None, Post_folder ''b'' (Some ''id-a'')]
   \<and> map fst (sync_folders_rounds example_collab [example_root, example_child] example_pending) =
       [example_root, example_child]
   \<and> sorted (map l2f_level [example_root, example_child])"
proof -
  have w: "get_waiting_for_created_l2f (cu example_pending) = [example_root, example_child]"
    by (simp add: get_waiting_for_created_l2f_def example_pending_def example_root_def
        example_child_def Location2Folder_of_def Location2Folder_init_def slice_def Let_def)
  have c: "map snd (l2f_cache (cu example_pending)) = [example_child, example_root]"
    by (simp add: example_pending_def)
  have run: "fst (sync_folders example_collab example_pending) = Inr () \<and>
             jda_calls (snd (sync_folders example_collab example_pending)) =
               [Post_folder ''a'' None, Post_folder ''b'' (Some ''id-a'')]"
    unfolding sync_folders_def Let_def w
    by (simp add: sync_folder_step_def example_pending_def example_root_def
        example_child_def Location2Folder_of_def Location2Folder_init_def slice_def Let_def
        example_collab_def submit_def update_l2f_def load_folders_def example_cu_def)
  note inst = folder_creation_order [of example_pending example_collab]
  have r: "map fst (sync_folders_rounds example_collab [example_root, example_child]
             example_pending) = [example_root, example_child]"
    using inst run w by simp
  have s: "sorted (map l2f_level [example_root, example_child])"
    using inst w by simp
  show ?thesis using w c run r s by simp
qed

section \<open>Folder creation: a parent that is absent or has no identifier\<close>

text \<open>
  Claim C9. When the loop of \<open>sync_folders\<close> reaches an entry that has a parent location
  while the cache has no entry for that location, or has one without an identifier, the
  run ends with a \<open>ValueError\<close> in the state in which the entry was reached: no call has
  been submitted for the entry and nothing has been stored for it.
\<close>

theorem unconfirmed_parent_aborts:
  assumes waiting: "get_waiting_for_created_l2f (cu st) = pre @ l2f # rest"
    and pre: "sync_folders_loop E pre st = (Inr (), st1)"
    and par: "l2f_parent_location l2f = Some p"
    and unconfirmed: "map_of (l2f_cache (cu st1)) p = None \<or>
           (\<exists>pe. map_of (l2f_cache (cu st1)) p = Some pe \<and> l2f_id pe = None)"
  shows "sync_folders E st =
           (Inl (if map_of (l2f_cache (cu st1)) p = None then ValueError_parent_not_found p
                 else ValueError_parent_no_id p), st1)
         \<and> sync_folder_step E l2f st1 = (fst (sync_folders E st), st1)"
proof -
  let ?err = "if map_of (l2f_cache (cu st1)) p = None then ValueError_parent_not_found p
              else ValueError_parent_no_id p"
  have step: "sync_folder_step E l2f st1 = (Inl ?err, st1)"
    using unconfirmed par step_parent_absent [of l2f p st1 E] step_parent_no_id [of l2f p st1 _ E]
    by auto
  then have "sync_folders_loop E (pre @ l2f # rest) st = (Inl ?err, st1)"
    by (simp add: loop_append pre)
  then have "sync_folders E st = (Inl ?err, st1)"
    by (simp add: sync_folders_def waiting Let_def)
  then show ?thesis using step by simp
qed

theorem unconfirmed_parent_aborts_witness:
  "get_waiting_for_created_l2f (cu example_orphan) = [] @ example_child # []
   \<and> l2f_parent_location example_child = Some ''/a/''
   \<and> map_of (l2f_cache (cu example_orphan)) ''/a/'' = None
   \<and> sync_folders example_collab example_orphan =
       (Inl (ValueError_parent_not_found ''/a/''), example_orphan)"
proof -
  have w: "get_waiting_for_created_l2f (cu example_orphan) = [] @ example_child # []"
    by (simp add: get_waiting_for_created_l2f_def example_orphan_def example_child_def
        Location2Folder_of_def Location2Folder_init_def slice_def Let_def)
  have pre: "sync_folders_loop example_collab [] example_orphan = (Inr (), example_orphan)"
    by simp
  have par: "l2f_parent_location example_child = Some ''/a/''"
    by (simp add: example_child_def Location2Folder_of_def Location2Folder_init_def slice_def
        Let_def)
  have absent: "map_of (l2f_cache (cu example_orphan)) ''/a/'' = None"
    by (simp add: example_orphan_def)
  then have un: "map_of (l2f_cache (cu example_orphan)) ''/a/'' = None \<or>
      (\<exists>pe. map_of (l2f_cache (cu example_orphan)) ''/a/'' = Some pe \<and> l2f_id pe = None)"
    by simp
  show ?thesis
    using w par absent unconfirmed_parent_aborts [OF w pre par un] by simp
qed

section \<open>The identifier of a chain entry can be written again\<close>

text \<open>
  Claim C7, as stated, fails: \<open>update_l2f\<close> on an entry that has the identifier \<open>f2\<close> and
  the parent identifier \<open>f1\<close> stores the identifiers it is given, in the cache and in the
  table.
\<close>

theorem update_l2f_overwrites:
  "map_of (l2f_cache example_cu) ''/Work/Projects/'' = Some example_projects \<and>
   l2f_id example_projects = Some ''f2'' \<and> l2f_parent_id example_projects = Some ''f1'' \<and>
   map_of (l2f_cache (snd (update_l2f ''/Work/Projects/'' (Some ''g2'') (Some ''g1'') example_cu)))
     ''/Work/Projects/'' =
     Some (example_projects\<lparr> l2f_id := Some ''g2'', l2f_parent_id := Some ''g1'' \<rparr>) \<and>
   map (\<lambda>row. (l2f_id row, l2f_parent_id row))
     (tbl_l2f (snd (update_l2f ''/Work/Projects/'' (Some ''g2'') (Some ''g1'') example_cu)))
     = [(Some ''f1'', None), (Some ''g2'', Some ''g1'')] \<and>
   snd (update_l2f ''/Work/Projects/'' (Some ''g2'') (Some ''g1'') example_cu) \<noteq> example_cu"
  by (simp add: update_l2f_def example_cu_def example_work_def example_projects_def Let_def)

text \<open>
  Claim C7, amended. \<open>update_l2f\<close> has no write-once guard: on an entry of the cache it
  returns normally, stores the given identifier whatever the entry held, stores the given
  parent identifier when that is not \<open>None\<close> and keeps the stored one otherwise, and leaves
  every other entry as it was.
\<close>

theorem update_l2f_effect:
  assumes "map_of (l2f_cache c) location = Some e"
  shows "fst (update_l2f location ident parent_id c) = Inr () \<and>
         map_of (l2f_cache (snd (update_l2f location ident parent_id c))) location =
           Some (e\<lparr> l2f_id := ident,
                    l2f_parent_id := (if parent_id \<noteq> None then parent_id else l2f_parent_id e) \<rparr>) \<and>
         (\<forall>other. other \<noteq> location \<longrightarrow>
            map_of (l2f_cache (snd (update_l2f location ident parent_id c))) other =
            map_of (l2f_cache c) other)"
  using assms by (simp add: update_l2f_def Let_def map_of_dict_set)

theorem update_l2f_effect_witness:
  "map_of (l2f_cache example_cu) ''/Work/Projects/'' = Some example_projects \<and>
   map_of (l2f_cache (snd (update_l2f ''/Work/Projects/'' (Some ''g2'') None example_cu)))
     ''/Work/Projects/'' = Some (example_projects\<lparr> l2f_id := Some ''g2'' \<rparr>) \<and>
   l2f_parent_id (example_projects\<lparr> l2f_id := Some ''g2'' \<rparr>) = Some ''f1'' \<and>
   map_of (l2f_cache (snd (update_l2f ''/Work/Projects/'' (Some ''g2'') None example_cu)))
     ''/Work/'' = Some example_work"
proof -
  have h: "map_of (l2f_cache example_cu) ''/Work/Projects/'' = Some example_projects"
    by (simp add: example_cu_def)
  have o: "map_of (l2f_cache example_cu) ''/Work/'' = Some example_work"
    by (simp add: example_cu_def)
  have p: "l2f_parent_id (example_projects\<lparr> l2f_id := Some ''g2'' \<rparr>) = Some ''f1''"
    by (simp add: example_projects_def)
  have n: "''/Work/'' \<noteq> ''/Work/Projects/''" by simp
  show ?thesis
    using h o p n update_l2f_effect [OF h, of "Some ''g2''" None] by simp
qed

section \<open>Storing a note: the links to its tags are not stored\<close>

lemma add_note_tbl_note_tag: "tbl_note_tag (snd (add_note note c)) = tbl_note_tag c"
proof -
  have lnk: "\<And>jil c. tbl_note_tag (snd (add_internal_lnk jil c)) = tbl_note_tag c"
    by (simp add: add_internal_lnk_def)
  have lnks: "\<And>jils c. tbl_note_tag (snd (add_internal_lnks jils c)) = tbl_note_tag c"
  proof -
    fix jils c
    show "tbl_note_tag (snd (add_internal_lnks jils c)) = tbl_note_tag c"
    proof (induction jils arbitrary: c)
      case Nil
      show ?case by simp
    next
      case (Cons jil jils)
      obtain r c1 where a: "add_internal_lnk jil c = (r, c1)" by force
      have "tbl_note_tag c1 = tbl_note_tag c" using lnk [of jil c] a by simp
      then show ?case using Cons a by (cases r) auto
    qed
  qed
  show ?thesis
    by (simp add: add_note_def Let_def add_note_tags_returns lnks)
qed

text \<open>
  Claim C6 at a note with one tag and one internal link, on a cache that does not have
  the note: \<open>add_note\<close> returns normally and stores the note and the internal link, and
  the table \<open>note_tag\<close> is as empty as before. (\<open>add_note_tag\<close> returns before its
  \<open>INSERT\<close> on every input, and \<open>add_note\<close> never changes the table.)
\<close>

theorem add_note_stores_no_tag_link:
  "get_note ''n1'' example_cu = None \<and>
   map snd (jn_tags example_note) = [example_tag] \<and>
   fst (add_note example_note example_cu) = Inr () \<and>
   map fst (notes (snd (add_note example_note example_cu))) = [''n1''] \<and>
   tbl_note (snd (add_note example_note example_cu)) =
     [(''n1'', ''T'', ''f1'', 0, ''/Work/'', 1, 2)] \<and>
   tbl_internal_link (snd (add_note example_note example_cu)) =
     [(''n1'', ''r1'', ''a.pdf'', ''open_attachment'')] \<and>
   tbl_note_tag (snd (add_note example_note example_cu)) = []"
proof -
  have a: "get_note ''n1'' example_cu = None" by (simp add: get_note_def example_cu_def)
  have b: "map snd (jn_tags example_note) = [example_tag]" by (simp add: example_note_def)
  have c: "tbl_note_tag (snd (add_note example_note example_cu)) = []"
    by (simp add: add_note_tbl_note_tag) (simp add: example_cu_def)
  have d: "fst (add_note example_note example_cu) = Inr () \<and>
           map fst (notes (snd (add_note example_note example_cu))) = [''n1''] \<and>
           tbl_note (snd (add_note example_note example_cu)) =
             [(''n1'', ''T'', ''f1'', 0, ''/Work/'', 1, 2)] \<and>
           tbl_internal_link (snd (add_note example_note example_cu)) =
             [(''n1'', ''r1'', ''a.pdf'', ''open_attachment'')]"
    by (simp add: add_note_def Let_def add_note_tags_returns add_internal_lnk_def
        JoplinInternalLink_id_def example_note_def example_cu_def example_link_def)
  show ?thesis using a b c d by simp
qed

section \<open>Uploads are recorded before the note is created\<close>













section \<open>Rewriting a body\<close>

lemma join_empty_Cons: "join [] (y # ys) = y @ join [] ys"
  by (cases ys) simp_all

lemma join_empty_sep: "join [] xs = concat xs"
  by (induction xs) (simp_all add: join_empty_Cons del: join.simps(3))

lemma convert_loop_body:
  "fst (convert_loop is_markdown links body ins) = inline_substitutions is_markdown links body"
  by (induction links arbitrary: body ins) (simp_all add: Let_def)

lemma convert_loop_insert_to_end:
  "snd (convert_loop is_markdown links body ins) = ins @ filter is_attachment links"
  by (induction links arbitrary: body ins) (simp_all add: Let_def is_attachment_def)

lemma convert_joplin_body_parts:
  "convert_joplin_body gt body is_markdown links =
     (if is_markdown then gt (inline_substitutions is_markdown links body)
      else inline_substitutions is_markdown links body)
     @ (if filter is_attachment links = [] then []
        else gen_end_ilstr is_markdown (filter is_attachment links))"
proof -
  obtain b ins where l: "convert_loop is_markdown links body [] = (b, ins)" by force
  have b: "b = inline_substitutions is_markdown links body"
    using convert_loop_body [of is_markdown links body "[]"] l by simp
  have i: "ins = filter is_attachment links"
    using convert_loop_insert_to_end [of is_markdown links body "[]"] l by simp
  show ?thesis
    by (simp add: convert_joplin_body_def l Let_def b i)
qed

lemma str_replace_skip_text:
  assumes "old \<noteq> []"
  shows "list_all (\<lambda>p. \<not> prefix old (drop p (t @ rest))) [0..<length t] \<Longrightarrow>
         str_replace old new (t @ rest) = t @ str_replace old new rest"
proof (induction t)
  case Nil
  show ?case by simp
next
  case (Cons x t)
  have all: "\<And>p. p < Suc (length t) \<Longrightarrow> \<not> prefix old (drop p ((x # t) @ rest))"
  proof -
    fix p assume "p < Suc (length t)"
    then have "p \<in> set [0..<length (x # t)]" by auto
    then show "\<not> prefix old (drop p ((x # t) @ rest))"
      using Cons.prems unfolding list_all_iff by blast
  qed
  have here: "\<not> prefix old (x # t @ rest)" using all [of 0] by simp
  have "\<forall>p < length t. \<not> prefix old (drop p (t @ rest))"
  proof (intro allI impI)
    fix p assume "p < length t"
    then have "\<not> prefix old (drop (Suc p) ((x # t) @ rest))" using all [of "Suc p"] by simp
    then show "\<not> prefix old (drop p (t @ rest))" by simp
  qed
  then have "list_all (\<lambda>p. \<not> prefix old (drop p (t @ rest))) [0..<length t]"
    by (simp add: list_all_iff)
  then have ih: "str_replace old new (t @ rest) = t @ str_replace old new rest"
    by (rule Cons.IH)
  have "str_replace old new (x # t @ rest) = x # str_replace old new (t @ rest)"
    using assms here by (subst str_replace.simps) simp
  then show ?case using ih by simp
qed

lemma str_replace_at_match:
  assumes "old \<noteq> []"
  shows "str_replace old new (old @ rest) = new @ str_replace old new rest"
  using assms by (subst str_replace.simps) simp

lemma str_replace_chunks:
  assumes "old \<noteq> []" and "rd (Ref jil) = old"
  shows "no_stray old rd jil cs \<Longrightarrow>
         str_replace old new (concat (map rd cs)) =
           concat (map (\<lambda>c. if c = Ref jil then new else rd c) cs)"
proof (induction cs)
  case Nil
  show ?case using assms(1) by (subst str_replace.simps) simp
next
  case (Cons c cs)
  have ih: "str_replace old new (concat (map rd cs)) =
              concat (map (\<lambda>c. if c = Ref jil then new else rd c) cs)"
    using Cons by simp
  show ?case
  proof (cases "c = Ref jil")
    case True
    then show ?thesis
      using ih assms str_replace_at_match [OF assms(1), of new "concat (map rd cs)"] by simp
  next
    case False
    then have "list_all (\<lambda>p. \<not> prefix old (drop p (rd c @ concat (map rd cs))))
                 [0..<length (rd c)]"
      using Cons.prems by simp
    then have "str_replace old new (rd c @ concat (map rd cs)) =
                 rd c @ str_replace old new (concat (map rd cs))"
      by (rule str_replace_skip_text [OF assms(1)])
    then show ?thesis using ih False by simp
  qed
qed

lemma partial_chunk_extend:
  assumes "jil \<notin> set processed"
  shows "(\<lambda>c. if c = Ref jil then gen_ilstr is_markdown jil
              else partial_chunk is_markdown processed c) =
         partial_chunk is_markdown (processed @ [jil])"
  by (rule ext) (auto simp: partial_chunk_def split: chunk.splits)

lemma partial_chunk_unreferenced:
  assumes "Ref jil \<notin> set cs"
  shows "map (partial_chunk is_markdown (processed @ [jil])) cs =
         map (partial_chunk is_markdown processed) cs"
  using assms by (induction cs) (auto simp: partial_chunk_def split: chunk.splits)

lemma inline_substitutions_chunks:
  "distinct (processed @ todo) \<Longrightarrow> literals_clear is_markdown processed todo cs \<Longrightarrow>
   inline_substitutions is_markdown todo (concat (map (partial_chunk is_markdown processed) cs)) =
     concat (map (partial_chunk is_markdown (processed @ todo)) cs)"
proof (induction todo arbitrary: processed)
  case Nil
  show ?case by simp
next
  case (Cons jil todo)
  have fresh: "jil \<notin> set processed" using Cons.prems(1) by simp
  have dist: "distinct ((processed @ [jil]) @ todo)" using Cons.prems(1) by simp
  have clear: "literals_clear is_markdown (processed @ [jil]) todo cs" using Cons.prems(2) by simp
  have step: "(if truthy_str (jil_outertext jil)
               then str_replace (the (jil_outertext jil)) (gen_ilstr is_markdown jil)
                      (concat (map (partial_chunk is_markdown processed) cs))
               else concat (map (partial_chunk is_markdown processed) cs)) =
              concat (map (partial_chunk is_markdown (processed @ [jil])) cs)"
  proof (cases "truthy_str (jil_outertext jil)")
    case True
    then have ne: "the (jil_outertext jil) \<noteq> []"
      by (auto simp: truthy_str_def split: option.splits)
    have lit: "partial_chunk is_markdown processed (Ref jil) = the (jil_outertext jil)"
      using fresh by (simp add: partial_chunk_def)
    have ns: "no_stray (the (jil_outertext jil)) (partial_chunk is_markdown processed) jil cs"
      using Cons.prems(2) True by simp
    show ?thesis
      using str_replace_chunks [OF ne lit ns, of "gen_ilstr is_markdown jil"] True
      by (simp add: partial_chunk_extend [OF fresh])
  next
    case False
    then have "Ref jil \<notin> set cs" using Cons.prems(2) by simp
    then show ?thesis using False by (simp add: partial_chunk_unreferenced)
  qed
  show ?case
    using Cons.IH [OF dist clear] step by simp
qed

lemma partial_chunk_none: "partial_chunk is_markdown [] = source_chunk"
  by (rule ext) (simp add: partial_chunk_def source_chunk_def split: chunk.splits)

lemma partial_chunk_all:
  "refs_within links cs \<Longrightarrow>
   map (partial_chunk is_markdown links) cs = map (target_chunk is_markdown) cs"
  by (induction cs) (auto simp: refs_within_def partial_chunk_def target_chunk_def
        split: chunk.splits)

lemma inline_substitutions_body:
  assumes "distinct links" and "refs_within links cs" and "literals_clear is_markdown [] links cs"
  shows "inline_substitutions is_markdown links (source_body cs) = target_body is_markdown cs"
  using inline_substitutions_chunks [of "[]" links is_markdown cs] assms
  by (simp add: partial_chunk_none partial_chunk_all source_body_def target_body_def)

text \<open>
  Claim C4, as stated, fails: an attachment reference that is substituted inline is
  listed in the trailing block as well.
\<close>

theorem inline_attachment_listed_again:
  "jil_link_type example_att_link = ''open_attachment'' \<and>
   jil_outertext example_att_link =
     Some ''<a href=\"wiz://open_attachment?guid=r-1\">a.pdf</a>'' \<and>
   convert_joplin_body (\<lambda>body. body)
       ''See <a href=\"wiz://open_attachment?guid=r-1\">a.pdf</a>.'' False [example_att_link] =
     ''See <a href=\":/r1\">a.pdf</a>.<br><br><h1>'' @ end_heading @
     ''</h1><ul><li><a href=\":/r1\">a.pdf</a></li></ul>''"
  by (simp add: convert_joplin_body_def example_att_link_def truthy_str_def gen_ilstr_def
      gen_end_ilstr_def str_replace.simps Let_def)

text \<open>
  Claim C4, amended. The body that \<open>convert_joplin_body\<close> returns is the body after all
  substitutions (passed through \<open>get_text\<close> when the note is markdown), followed, when the
  list has links of type \<open>open_attachment\<close>, by one trailing block; the block has the fixed
  heading and one entry for each such link, in the order of the list, whether or not the
  link's original text was substituted in the body. There is no block when the list has
  no such link.
\<close>

theorem trailing_block:
  "convert_joplin_body gt body is_markdown links =
     (if is_markdown then gt (inline_substitutions is_markdown links body)
      else inline_substitutions is_markdown links body)
     @ (if filter is_attachment links = [] then []
        else gen_end_ilstr is_markdown (filter is_attachment links))
   \<and> gen_end_ilstr False atts =
       ''<br><br><h1>'' @ end_heading @ ''</h1><ul>'' @
       concat (map (\<lambda>jil. ''<li>'' @ gen_ilstr False jil @ ''</li>'') atts) @ ''</ul>''
   \<and> gen_end_ilstr True atts =
       ''\<newline>\<newline># '' @ end_heading @ ''\<newline>\<newline>'' @
       join ''\<newline>'' (map (\<lambda>jil. ''- '' @ gen_ilstr True jil) atts)"
  by (simp add: convert_joplin_body_parts gen_end_ilstr_def join_empty_sep Let_def)

theorem trailing_block_witness:
  "filter is_attachment [example_doc_link, example_link] = [example_link] \<and>
   convert_joplin_body (\<lambda>body. body) ''text'' False [example_doc_link, example_link] =
     ''text<br><br><h1>'' @ end_heading @ ''</h1><ul><li><a href=\":/r1\">a.pdf</a></li></ul>''"
proof -
  have f: "filter is_attachment [example_doc_link, example_link] = [example_link]"
    by (simp add: is_attachment_def example_doc_link_def example_link_def)
  have s: "inline_substitutions False [example_doc_link, example_link] ''text'' = ''text''"
    by (simp add: example_doc_link_def example_link_def truthy_str_def str_replace.simps)
  have g: "gen_ilstr False example_link = ''<a href=\":/r1\">a.pdf</a>''"
    by (simp add: gen_ilstr_def example_link_def)
  show ?thesis
    using trailing_block [of "\<lambda>body. body" "''text''" False "[example_doc_link, example_link]"
        "[example_link]"] f s g
    by simp
qed

text \<open>
  Claim C5, as stated, fails: a body with one literal reference, to an attachment, comes
  back with two target-addressed forms, the one that replaces the literal and the entry of
  the trailing block.
\<close>

theorem inline_attachment_two_forms:
  "count_occurrences (the (jil_outertext example_att_link))
     (source_body [Text ''See '', Ref example_att_link, Text ''.'']) = 1 \<and>
   count_occurrences (gen_ilstr False example_att_link)
     (convert_joplin_body (\<lambda>body. body)
        (source_body [Text ''See '', Ref example_att_link, Text ''.'']) False
        [example_att_link]) = 2"
  by code_simp

text \<open>
  Claim C5, amended. Take a body made of text pieces and references, each reference
  written as the original text of a link of the list, the list without duplicates, and
  suppose that when the loop comes to a link, no occurrence of the link's original text
  begins inside a piece other than a reference through that link. Then
  \<open>convert_joplin_body\<close> returns the body with every reference replaced by the
  target-addressed form of its link and every text piece unchanged (passed through
  \<open>get_text\<close> when the note is markdown), followed by the trailing block when the list has
  attachment links. The form is \<open>[title](:/id)\<close> for a markdown note, with a leading \<open>!\<close>
  for an image, and an \<open>a\<close> or, for an image, an \<open>img\<close> element otherwise.
\<close>

theorem substitution_complete:
  assumes "distinct links" and "refs_within links cs"
    and "literals_clear is_markdown [] links cs"
  shows "convert_joplin_body gt (source_body cs) is_markdown links =
           (if is_markdown then gt (target_body is_markdown cs) else target_body is_markdown cs)
           @ (if filter is_attachment links = [] then []
              else gen_end_ilstr is_markdown (filter is_attachment links))
         \<and> gen_ilstr True jil =
             (if jil_link_type jil = ''image'' then ''!'' else []) @
             ''['' @ jil_title jil @ ''](:/'' @ jil_resource_id jil @ '')''
         \<and> gen_ilstr False jil =
             (if jil_link_type jil = ''image''
              then ''<img src=\":/'' @ jil_resource_id jil @ ''\" alt=\"'' @ jil_title jil @ ''\">''
              else ''<a href=\":/'' @ jil_resource_id jil @ ''\">'' @ jil_title jil @ ''</a>'')"
proof -
  have "inline_substitutions is_markdown links (source_body cs) = target_body is_markdown cs"
    by (rule inline_substitutions_body [OF assms])
  then have body: "convert_joplin_body gt (source_body cs) is_markdown links =
           (if is_markdown then gt (target_body is_markdown cs) else target_body is_markdown cs)
           @ (if filter is_attachment links = [] then []
              else gen_end_ilstr is_markdown (filter is_attachment links))"
    by (simp only: convert_joplin_body_parts)
  have forms: "gen_ilstr True jil =
             (if jil_link_type jil = ''image'' then ''!'' else []) @
             ''['' @ jil_title jil @ ''](:/'' @ jil_resource_id jil @ '')''
         \<and> gen_ilstr False jil =
             (if jil_link_type jil = ''image''
              then ''<img src=\":/'' @ jil_resource_id jil @ ''\" alt=\"'' @ jil_title jil @ ''\">''
              else ''<a href=\":/'' @ jil_resource_id jil @ ''\">'' @ jil_title jil @ ''</a>'')"
    by (simp add: gen_ilstr_def Let_def)
  show ?thesis using body forms by (rule conjI)
qed

theorem substitution_complete_witness:
  "distinct [example_doc_link, example_att_link] \<and>
   refs_within [example_doc_link, example_att_link] example_body \<and>
   literals_clear False [] [example_doc_link, example_att_link] example_body \<and>
   source_body example_body =
     ''See <a href=\"wiz://open_document?guid=d-2\">Plan</a> and <a href=\"wiz://open_attachment?guid=r-1\">a.pdf</a>.'' \<and>
   convert_joplin_body (\<lambda>body. body) (source_body example_body) False
       [example_doc_link, example_att_link] =
     ''See <a href=\":/d2\">Plan</a> and <a href=\":/r1\">a.pdf</a>.<br><br><h1>'' @
     end_heading @ ''</h1><ul><li><a href=\":/r1\">a.pdf</a></li></ul>''"
proof -
  have d: "distinct [example_doc_link, example_att_link]"
    by (simp add: example_doc_link_def example_att_link_def)
  have r: "refs_within [example_doc_link, example_att_link] example_body"
    by (simp add: refs_within_def example_body_def)
  have l: "literals_clear False [] [example_doc_link, example_att_link] example_body"
    by code_simp
  have s: "source_body example_body =
     ''See <a href=\"wiz://open_document?guid=d-2\">Plan</a> and <a href=\"wiz://open_attachment?guid=r-1\">a.pdf</a>.''"
    by (simp add: source_body_def source_chunk_def example_body_def example_doc_link_def
        example_att_link_def)
  have t: "target_body False example_body =
             ''See <a href=\":/d2\">Plan</a> and <a href=\":/r1\">a.pdf</a>.''"
    by (simp add: target_body_def target_chunk_def example_body_def example_doc_link_def
        example_att_link_def gen_ilstr_def)
  have f: "filter is_attachment [example_doc_link, example_att_link] = [example_att_link]"
    by (simp add: is_attachment_def example_doc_link_def example_att_link_def)
  have g: "gen_end_ilstr False [example_att_link] =
             ''<br><br><h1>'' @ end_heading @ ''</h1><ul><li><a href=\":/r1\">a.pdf</a></li></ul>''"
    by (simp add: gen_end_ilstr_def gen_ilstr_def example_att_link_def)
  have c: "convert_joplin_body (\<lambda>body. body) (source_body example_body) False
             [example_doc_link, example_att_link] =
           ''See <a href=\":/d2\">Plan</a> and <a href=\":/r1\">a.pdf</a>.<br><br><h1>'' @
           end_heading @ ''</h1><ul><li><a href=\":/r1\">a.pdf</a></li></ul>''"
    using substitution_complete [OF d r l, of "\<lambda>body. body" example_doc_link] t f g
    by simp
  show ?thesis using d r l s c by simp
qed


end
